theory Spec2Isabelle
  imports Complex_Main
begin

section \<open>Python values used by \<^verbatim>\<open>download_data.py\<close>\<close>

text \<open>
  A Python \<^verbatim>\<open>str\<close> is a sequence of Unicode code points, so it is modelled as a list of
  naturals; \<open>py\<close> turns an ASCII literal of the script into that representation.
  Equality, slicing and stripping then count code points, as Python does.
\<close>

type_synonym str = "nat list"

definition py :: "string \<Rightarrow> str" where
  "py s = map of_char s"

text \<open>
  \<^verbatim>\<open>str.strip()\<close> with no argument removes leading and trailing whitespace, where
  whitespace is what \<^verbatim>\<open>str.isspace\<close> accepts: U+0009..U+000D, U+001C..U+0020, U+0085,
  U+00A0, U+1680, U+2000..U+200A, U+2028, U+2029, U+202F, U+205F and U+3000.
\<close>

definition isspace :: "nat \<Rightarrow> bool" where
  "isspace c \<longleftrightarrow>
     (9 \<le> c \<and> c \<le> 13) \<or> (28 \<le> c \<and> c \<le> 32) \<or> c = 133 \<or> c = 160 \<or> c = 5760 \<or>
     (8192 \<le> c \<and> c \<le> 8202) \<or> c = 8232 \<or> c = 8233 \<or> c = 8239 \<or> c = 8287 \<or> c = 12288"

definition strip :: "str \<Rightarrow> str" where
  "strip s = rev (dropWhile isspace (rev (dropWhile isspace s)))"

text \<open>
  \<^verbatim>\<open>os.path.join(a, b)\<close> of \<^verbatim>\<open>posixpath\<close>: an absolute second component replaces the
  first; otherwise the components are glued with one \<^verbatim>\<open>/\<close> (code point 47) unless the first
  is empty or already ends with one.
\<close>

definition path_join :: "str \<Rightarrow> str \<Rightarrow> str" where
  "path_join a b =
     (if b \<noteq> [] \<and> hd b = 47 then b
      else if a = [] \<or> last a = 47 then a @ b
      else a @ [47] @ b)"

section \<open>Exceptions and the process boundary\<close>

text \<open>
  Exceptions are values. \<open>FileExistsError\<close> is what \<^verbatim>\<open>os.mkdir\<close> raises on an existing
  target, \<open>OSError\<close> stands for every other error of the operating system (missing parent,
  permissions, a credential file that cannot be opened), \<open>EOFError\<close> is raised by
  \<^verbatim>\<open>input()\<close> at the end of standard input, \<open>LibraryError\<close> is any exception raised inside
  the sentinelhub client (configuration, network, API rejection), and \<open>SystemExit\<close> is what
  \<^verbatim>\<open>sys.exit(arg)\<close> raises. \<open>KeyboardInterrupt\<close> is raised when the user presses Ctrl-C; in
  this model that happens where the script waits for the user, in \<^verbatim>\<open>input()\<close>.
  \<open>SystemExit\<close> and \<open>KeyboardInterrupt\<close> derive from \<^verbatim>\<open>BaseException\<close> only, so an
  \<^verbatim>\<open>except Exception\<close> clause catches neither.
\<close>

datatype exn =
    FileExistsError str
  | OSError str
  | EOFError
  | LibraryError str
  | SystemExit "int option"
  | KeyboardInterrupt

fun is_Exception :: "exn \<Rightarrow> bool" where
  "is_Exception (SystemExit _) = False"
| "is_Exception KeyboardInterrupt = False"
| "is_Exception _ = True"


section \<open>Data of the script and of the sentinelhub client\<close>

text \<open>The dictionary \<^verbatim>\<open>parameters\<close> built by \<^verbatim>\<open>authenticate\<close>, with its three fixed keys.\<close>

record parameters =
  param_instance_id :: str
  param_client_id :: str
  param_client_secret :: str

text \<open>The three attributes of \<^verbatim>\<open>SHConfig\<close> that the script assigns.\<close>

record config =
  instance_id :: str
  sh_client_id :: str
  sh_client_secret :: str

datatype crs = WGS84

text \<open>
  Coordinates and cloud cover are Python numbers that the script only passes on; they are
  kept as rationals.
\<close>

record bbox =
  bbox_coords :: "rat \<times> rat \<times> rat \<times> rat"
  bbox_crs :: crs

datatype data_collection = SENTINEL2_L2A

text \<open>
  A catalog feature as returned under the requested field projection:
  \<^verbatim>\<open>result['id']\<close>, \<^verbatim>\<open>result['properties']['datetime']\<close> and
  \<^verbatim>\<open>result['properties']['eo:cloud_cover']\<close>.
\<close>

record properties =
  datetime :: str
  eo_cloud_cover :: rat

record scene =
  scene_id :: str
  scene_properties :: properties

text \<open>
  The CQL2 text filter \<^verbatim>\<open>"eo:cloud_cover < 2"\<close> in abstract syntax: property name,
  strict comparison, bound.
\<close>

datatype cql_filter = Less_than str int

record field_selection =
  fields_include :: "str list"
  fields_exclude :: "str list"

record query =
  q_collection :: data_collection
  q_bbox :: bbox
  q_time :: "str \<times> str"
  q_filter :: cql_filter
  q_fields :: field_selection

text \<open>
  The remote search hands back a lazy iterator: the features it yields, in order, and the
  exception (if any) that fetching a later page raises.
\<close>

record search_iterator =
  yields :: "scene list"
  breaks_with :: "str option"

text \<open>
  The evaluation script is a JavaScript text; its \<^verbatim>\<open>setup()\<close> object and the value of
  \<^verbatim>\<open>evaluatePixel\<close> are kept in abstract syntax:
  \<^verbatim>\<open>input: [{bands: [...], units: ...}], output: {bands: n, sampleType: ...}\<close> and the
  list of sample fields returned.
\<close>

record evalscript =
  es_version :: nat
  es_input_bands :: "str list"
  es_units :: str
  es_output_bands :: nat
  es_sampleType :: str
  es_evaluatePixel :: "str list"

datatype mosaicking_order = MOST_RECENT | LEAST_RECENT | LEAST_CC

datatype mime_type = TIFF | PNG | JPG

record input_data =
  inp_data_collection :: data_collection
  inp_time_interval :: "str \<times> str"
  inp_maxcc :: rat
  inp_mosaicking_order :: mosaicking_order

record request =
  req_data_folder :: str
  req_evalscript :: evalscript
  req_input_data :: "input_data list"
  req_responses :: "(str \<times> mime_type) list"
  req_bbox :: bbox
  req_size :: "int \<times> int"
  req_config :: config

section \<open>The world outside the script\<close>

text \<open>
  Everything the script touches is explicit state: the entries of the file system, the
  lines still to be typed on standard input, what has been printed, the configuration that
  \<^verbatim>\<open>config.save()\<close> last wrote to the user's profile, and the trace of calls made, in
  program order. The trace also notes each entry into \<^verbatim>\<open>download_data\<close>, and each
  \<^verbatim>\<open>get_data(save_data=True)\<close> together with the file system it found.
\<close>

text \<open>
  What a path names: a directory, a regular file, or a name that is taken without leading
  anywhere (\<open>Dangling\<close>: a symbolic link whose target is missing, or a regular file
  written with a trailing slash). \<^verbatim>\<open>os.path.exists\<close> follows links and is \<^verbatim>\<open>False\<close> on
  the last kind; \<^verbatim>\<open>os.mkdir\<close> looks at the name alone and raises \<open>FileExistsError\<close> on all
  three. The file system is keyed by the path as the script writes it, so two spellings
  of one path are two keys.
\<close>

datatype node = Dir | File | Dangling

text \<open>What the user does at a prompt: type a line, or press Ctrl-C.\<close>

datatype keyboard = Line str | Ctrl_C

datatype printed =
    Prompt str
  | Printed_parameters parameters
  | Printed_info str
  | Printed_text str
  | Printed_size "int \<times> int"
  | Printed_total nat
  | Printed_scene scene
  | Printed_exn exn
  | Printed_path str

datatype call =
    Config_save config
  | Catalog_get_info config
  | Catalog_search query config
  | Enter_download_data str str
  | Mkdir str
  | Bbox_to_dimensions bbox int
  | Get_data request "str \<rightharpoonup> node"

record world =
  disk :: "str \<rightharpoonup> node"
  stdin :: "keyboard list"
  stdout :: "printed list"
  saved_config :: "config option"
  calls :: "call list"

text \<open>
  The behaviour of the operating system and of the sentinelhub client is not part of the
  script: it is a parameter. A function that returns \<open>Inl m\<close> or \<open>Some m\<close> raises with
  message \<open>m\<close>.
  \<^item> \<open>open_rplus p\<close>: \<^verbatim>\<open>open(p, "r+")\<close>, giving the text of the file as a text-mode
    stream delivers it (decoded, every line end translated to a newline);
  \<^item> \<open>new_SHConfig c\<close>: \<^verbatim>\<open>SHConfig()\<close>, loaded from the saved profile \<open>c\<close>;
  \<^item> \<open>save_fails c\<close>: whether \<^verbatim>\<open>config.save()\<close> raises;
  \<^item> \<open>get_info c\<close>: \<^verbatim>\<open>SentinelHubCatalog(config=c).get_info()\<close>, pretty-printed;
  \<^item> \<open>search q c\<close>: \<^verbatim>\<open>SentinelHubCatalog(config=c).search(...)\<close>;
  \<^item> \<open>new_BBox xs crs\<close>: the constructor \<^verbatim>\<open>BBox(xs, crs=crs)\<close>;
  \<^item> \<open>bbox_to_dimensions b r\<close>: the library function of that name;
  \<^item> \<open>get_data r d\<close>: building \<^verbatim>\<open>SentinelHubRequest\<close> \<open>r\<close> and running
    \<^verbatim>\<open>get_data(save_data=True)\<close> on the file system \<open>d\<close>; files may have been written
    even when it raises;
  \<^item> \<open>mkdir_refused d p\<close>: a reason other than an existing target for which
    \<^verbatim>\<open>os.mkdir(p)\<close> fails on \<open>d\<close>;
  \<^item> \<open>os_walk d p\<close>: the triples \<^verbatim>\<open>(folder, dirs, filenames)\<close> of \<^verbatim>\<open>os.walk(p)\<close>.
\<close>

record env =
  open_rplus :: "str \<Rightarrow> str + str"
  new_SHConfig :: "config option \<Rightarrow> str + config"
  save_fails :: "config \<Rightarrow> str option"
  get_info :: "config \<Rightarrow> str + str"
  search :: "query \<Rightarrow> config \<Rightarrow> str + search_iterator"
  new_BBox :: "rat \<times> rat \<times> rat \<times> rat \<Rightarrow> crs \<Rightarrow> str + bbox"
  bbox_to_dimensions :: "bbox \<Rightarrow> int \<Rightarrow> str + (int \<times> int)"
  get_data :: "request \<Rightarrow> (str \<rightharpoonup> node) \<Rightarrow> str option \<times> (str \<rightharpoonup> node)"
  mkdir_refused :: "(str \<rightharpoonup> node) \<Rightarrow> str \<Rightarrow> str option"
  os_walk :: "(str \<rightharpoonup> node) \<Rightarrow> str \<Rightarrow> (str \<times> str list \<times> str list) list"

subsection \<open>Built-ins\<close>

definition py_print :: "printed \<Rightarrow> world \<Rightarrow> world" where
  "py_print x w = w\<lparr>stdout := stdout w @ [x]\<rparr>"

definition record_call :: "call \<Rightarrow> world \<Rightarrow> world" where
  "record_call c w = w\<lparr>calls := calls w @ [c]\<rparr>"

text \<open>
  \<^verbatim>\<open>input(prompt)\<close> writes the prompt, then returns the line typed, or raises \<open>EOFError\<close> at
  the end of the input, or \<open>KeyboardInterrupt\<close> on Ctrl-C.
\<close>

definition py_input :: "str \<Rightarrow> world \<Rightarrow> (exn + str) \<times> world" where
  "py_input prompt w =
     (let w1 = py_print (Prompt prompt) w in
      case stdin w1 of
        [] \<Rightarrow> (Inl EOFError, w1)
      | Line line # rest \<Rightarrow> (Inr line, w1\<lparr>stdin := rest\<rparr>)
      | Ctrl_C # rest \<Rightarrow> (Inl KeyboardInterrupt, w1\<lparr>stdin := rest\<rparr>))"

definition py_open :: "env \<Rightarrow> str \<Rightarrow> exn + str" where
  "py_open env p = (case open_rplus env p of Inl m \<Rightarrow> Inl (OSError m) | Inr text \<Rightarrow> Inr text)"

text \<open>
  \<^verbatim>\<open>file.readline()\<close> on the text still unread: the line up to and including the next
  newline (code point 10), or all that is left, which is empty at the end of the file.
\<close>

fun readline :: "str \<Rightarrow> str \<times> str" where
  "readline [] = ([], [])"
| "readline (c # cs) =
     (if c = 10 then ([c], cs) else (case readline cs of (l, rest) \<Rightarrow> (c # l, rest)))"

text \<open>
  \<^verbatim>\<open>os.path.exists(p)\<close> asks for the status of what \<open>p\<close> leads to and is \<^verbatim>\<open>False\<close> when
  that fails. \<^verbatim>\<open>os.mkdir(p)\<close> raises \<open>FileExistsError\<close> whenever the name is taken, also by
  a dangling name, and otherwise creates the directory unless the system refuses for
  another reason.
\<close>

definition os_path_exists :: "world \<Rightarrow> str \<Rightarrow> bool" where
  "os_path_exists w p \<longleftrightarrow> disk w p = Some Dir \<or> disk w p = Some File"

definition os_mkdir :: "env \<Rightarrow> str \<Rightarrow> world \<Rightarrow> (exn + unit) \<times> world" where
  "os_mkdir env p w =
     (let w1 = record_call (Mkdir p) w in
      if disk w p \<noteq> None then (Inl (FileExistsError p), w1)
      else case mkdir_refused env (disk w) p of
             Some m \<Rightarrow> (Inl (OSError m), w1)
           | None \<Rightarrow> (Inr (), w1\<lparr>disk := (disk w)(p \<mapsto> Dir)\<rparr>))"

text \<open>\<^verbatim>\<open>list(iterator)\<close>: all items in the order yielded, unless the iterator raises.\<close>

definition py_list :: "search_iterator \<Rightarrow> exn + scene list" where
  "py_list it = (case breaks_with it of Some m \<Rightarrow> Inl (LibraryError m) | None \<Rightarrow> Inr (yields it))"

section \<open>The script\<close>

subsection \<open>\<^verbatim>\<open>authenticate\<close>\<close>

text \<open>
  The dictionary literal of \<^verbatim>\<open>authenticate\<close>: three \<^verbatim>\<open>file.readline().strip()\<close>, evaluated
  in key order. The second component is what is left unread.
\<close>

definition read_parameters :: "str \<Rightarrow> parameters \<times> str" where
  "read_parameters file =
     (case readline file of (l1, f1) \<Rightarrow>
     (case readline f1 of (l2, f2) \<Rightarrow>
     (case readline f2 of (l3, f3) \<Rightarrow>
        (\<lparr>param_instance_id = strip l1, param_client_id = strip l2,
          param_client_secret = strip l3\<rparr>, f3))))"

definition config_save :: "env \<Rightarrow> config \<Rightarrow> world \<Rightarrow> (exn + unit) \<times> world" where
  "config_save env config w =
     (let w1 = record_call (Config_save config) w in
      case save_fails env config of
        Some m \<Rightarrow> (Inl (LibraryError m), w1)
      | None \<Rightarrow> (Inr (), w1\<lparr>saved_config := Some config\<rparr>))"

definition authenticate :: "env \<Rightarrow> str \<Rightarrow> world \<Rightarrow> (exn + config) \<times> world" where
  "authenticate env file w =
     (let parameters = fst (read_parameters file);
          w1 = py_print (Printed_parameters parameters) w in
      case new_SHConfig env (saved_config w1) of
        Inl m \<Rightarrow> (Inl (LibraryError m), w1)
      | Inr config0 \<Rightarrow>
     (let config = config0\<lparr>instance_id := param_instance_id parameters,
                           sh_client_id := param_client_id parameters,
                           sh_client_secret := param_client_secret parameters\<rparr> in
      case config_save env config w1 of
        (Inl e, w2) \<Rightarrow> (Inl e, w2)
      | (Inr _, w2) \<Rightarrow>
          if sh_client_id config = [] \<or> sh_client_secret config = [] then
            (let w3 = py_print (Printed_text (py
                   ''ATTENTION! To use SentinelHub API, you need to provide an OAuth client ID and client secret.'')) w2 in
             case py_input (py ''OAuth instance ID: '') w3 of
               (Inl e, w4) \<Rightarrow> (Inl e, w4)
             | (Inr a, w4) \<Rightarrow>
            (case py_input (py ''OAuth client ID: '') w4 of
               (Inl e, w5) \<Rightarrow> (Inl e, w5)
             | (Inr b, w5) \<Rightarrow>
            (case py_input (py ''OAuth client secret: '') w5 of
               (Inl e, w6) \<Rightarrow> (Inl e, w6)
             | (Inr c, w6) \<Rightarrow>
               (Inr (config\<lparr>instance_id := a, sh_client_id := b, sh_client_secret := c\<rparr>),
                w6))))
          else (Inr config, w2)))"

subsection \<open>\<^verbatim>\<open>get_catalog_info\<close> and \<^verbatim>\<open>search_data\<close>\<close>

definition get_catalog_info :: "env \<Rightarrow> config \<Rightarrow> world \<Rightarrow> (exn + unit) \<times> world" where
  "get_catalog_info env config w =
     (let w1 = record_call (Catalog_get_info config) w in
      case get_info env config of
        Inl m \<Rightarrow> (Inl (LibraryError m), w1)
      | Inr info \<Rightarrow> (Inr (), py_print (Printed_info info) w1))"

definition search_data ::
  "env \<Rightarrow> bbox \<Rightarrow> str \<times> str \<Rightarrow> config \<Rightarrow> world \<Rightarrow> (exn + scene list) \<times> world" where
  "search_data env bbox time_interval config w =
     (let q = \<lparr>q_collection = SENTINEL2_L2A, q_bbox = bbox, q_time = time_interval,
               q_filter = Less_than (py ''eo:cloud_cover'') 2,
               q_fields = \<lparr>fields_include = [py ''id'', py ''properties.datetime'',
                                              py ''properties.eo:cloud_cover''],
                           fields_exclude = []\<rparr>\<rparr>;
          w1 = record_call (Catalog_search q config) w in
      case search env q config of
        Inl m \<Rightarrow> (Inl (LibraryError m), w1)
      | Inr search_iterator \<Rightarrow>
          (case py_list search_iterator of
             Inl e \<Rightarrow> (Inl e, w1)
           | Inr result_search \<Rightarrow> (Inr result_search, w1)))"

subsection \<open>\<^verbatim>\<open>download_data\<close>\<close>

definition evalscript_all_bands :: evalscript where
  "evalscript_all_bands =
     \<lparr>es_version = 3,
      es_input_bands = [py ''B02'', py ''B03'', py ''B04''],
      es_units = py ''DN'',
      es_output_bands = 3,
      es_sampleType = py ''INT16'',
      es_evaluatePixel = [py ''B02'', py ''B03'', py ''B04'']\<rparr>"

text \<open>The two nested loops over \<^verbatim>\<open>os.walk\<close> that print every file path.\<close>

definition print_walk :: "(str \<times> str list \<times> str list) list \<Rightarrow> world \<Rightarrow> world" where
  "print_walk triples w =
     foldl (\<lambda>w (folder, dirs, filenames).
              foldl (\<lambda>w filename. py_print (Printed_path (path_join folder filename)) w)
                    w filenames)
           w triples"

definition lib_get_data :: "env \<Rightarrow> request \<Rightarrow> world \<Rightarrow> (exn + unit) \<times> world" where
  "lib_get_data env r w =
     (let w1 = record_call (Get_data r (disk w)) w in
      case get_data env r (disk w) of
        (Some m, d) \<Rightarrow> (Inl (LibraryError m), w1\<lparr>disk := d\<rparr>)
      | (None, d) \<Rightarrow> (Inr (), w1\<lparr>disk := d\<rparr>))"

definition lib_bbox_to_dimensions ::
  "env \<Rightarrow> bbox \<Rightarrow> int \<Rightarrow> world \<Rightarrow> (exn + int \<times> int) \<times> world" where
  "lib_bbox_to_dimensions env bbox resolution w =
     (let w1 = record_call (Bbox_to_dimensions bbox resolution) w in
      case bbox_to_dimensions env bbox resolution of
        Inl m \<Rightarrow> (Inl (LibraryError m), w1)
      | Inr dims \<Rightarrow> (Inr dims, w1))"

text \<open>
  The \<^verbatim>\<open>SentinelHubRequest(...)\<close> that \<^verbatim>\<open>download_data\<close> builds, as a function of the
  variables it mentions.
\<close>

definition request_all_bands :: "config \<Rightarrow> str \<Rightarrow> str \<Rightarrow> bbox \<Rightarrow> int \<times> int \<Rightarrow> request" where
  "request_all_bands config data_folder new_date bbox img_size =
     \<lparr>req_data_folder = data_folder,
      req_evalscript = evalscript_all_bands,
      req_input_data =
        [\<lparr>inp_data_collection = SENTINEL2_L2A,
          inp_time_interval = (new_date, new_date),
          inp_maxcc = 2 / 10,
          inp_mosaicking_order = LEAST_CC\<rparr>],
      req_responses = [(py ''default'', TIFF)],
      req_bbox = bbox,
      req_size = img_size,
      req_config = config\<rparr>"

definition download_data ::
  "env \<Rightarrow> config \<Rightarrow> str \<Rightarrow> str \<Rightarrow> bbox \<Rightarrow> str \<Rightarrow> world \<Rightarrow> (exn + unit) \<times> world" where
  "download_data env config path sid bbox new_date w0 =
     (let w = record_call (Enter_download_data sid new_date) w0 in
      case (if \<not> os_path_exists w (path_join path (py ''data''))
            then os_mkdir env (path_join path (py ''data'')) w else (Inr (), w)) of
        (Inl e, w1) \<Rightarrow> (Inl e, w1)
      | (Inr _, w1) \<Rightarrow>
     (case (if \<not> os_path_exists w1 (path_join (path_join path (py ''data'')) sid)
            then os_mkdir env (path_join (path_join path (py ''data'')) sid) w1
            else (Inr (), w1)) of
        (Inl e, w2) \<Rightarrow> (Inl e, w2)
      | (Inr _, w2) \<Rightarrow>
     (let data_folder = path_join (path_join path (py ''data'')) sid in
      case lib_bbox_to_dimensions env bbox 10 w2 of
        (Inl e, w3) \<Rightarrow> (Inl e, w3)
      | (Inr img_size, w3) \<Rightarrow>
     (let w4 = py_print (Printed_size img_size) w3 in
      case lib_get_data env (request_all_bands config data_folder new_date bbox img_size) w4 of
        (Inl e, w5) \<Rightarrow> (Inl e, w5)
      | (Inr _, w5) \<Rightarrow>
     (let w6 = py_print (Printed_text (py
                 ''An output folder has been created, and a TIFF file with 13 bands has been created with the following format:\<newline>'')) w5
      in (Inr (), print_walk (os_walk env (disk w6) data_folder) w6))))))"

subsection \<open>The main program\<close>

text \<open>
  One pass through the body of the \<^verbatim>\<open>for\<close> loop; \<^verbatim>\<open>sys.exit()\<close> raises
  \<open>SystemExit\<close> with no argument.
\<close>

definition loop_body ::
  "env \<Rightarrow> config \<Rightarrow> str \<Rightarrow> bbox \<Rightarrow> scene \<Rightarrow> world \<Rightarrow> (exn + unit) \<times> world" where
  "loop_body env config path bbox result w =
     (let w1 = py_print (Printed_scene result) w in
      case py_input (py ''Do you want to keep it? (yes/no/exit) '') w1 of
        (Inl e, w2) \<Rightarrow> (Inl e, w2)
      | (Inr keep_it, w2) \<Rightarrow>
     (case (if keep_it = py ''yes'' \<or> keep_it = py ''y'' \<or> keep_it = py ''oui''
               \<or> keep_it = py ''o''
            then download_data env config path (scene_id result) bbox
                   (take 10 (datetime (scene_properties result))) w2
            else (Inr (), w2)) of
        (Inl e, w3) \<Rightarrow> (Inl e, w3)
      | (Inr _, w3) \<Rightarrow>
          if keep_it = py ''exit'' \<or> keep_it = py ''e''
          then (Inl (SystemExit None), w3)
          else (Inr (), w3)))"

fun selection_loop ::
  "env \<Rightarrow> config \<Rightarrow> str \<Rightarrow> bbox \<Rightarrow> scene list \<Rightarrow> world \<Rightarrow> (exn + unit) \<times> world" where
  "selection_loop env config path bbox [] w = (Inr (), w)"
| "selection_loop env config path bbox (result # rest) w =
     (case loop_body env config path bbox result w of
        (Inl e, w1) \<Rightarrow> (Inl e, w1)
      | (Inr _, w1) \<Rightarrow> selection_loop env config path bbox rest w1)"

text \<open>
  The \<^verbatim>\<open>try\<close> block: opening the credential file and \<^verbatim>\<open>authenticate\<close>.
\<close>

definition open_and_authenticate :: "env \<Rightarrow> str \<Rightarrow> world \<Rightarrow> (exn + config) \<times> world" where
  "open_and_authenticate env path_txt w =
     (case py_open env path_txt of
        Inl e \<Rightarrow> (Inl e, w)
      | Inr file \<Rightarrow> authenticate env file w)"

text \<open>
  The script leaves \<^verbatim>\<open>your_path\<close> and \<^verbatim>\<open>x_min, y_min, x_max, y_max\<close> for its user to
  fill in: they are the parameters of \<open>main\<close>. The handler \<^verbatim>\<open>except Exception as e\<close>
  prints \<open>e\<close> and calls \<^verbatim>\<open>sys.exit()\<close>.
\<close>

definition main ::
  "env \<Rightarrow> str \<Rightarrow> rat \<times> rat \<times> rat \<times> rat \<Rightarrow> world \<Rightarrow> (exn + unit) \<times> world" where
  "main env your_path coordinates w =
     (let path = your_path;
          path_txt = path_join path (py ''parameters.txt'') in
      case open_and_authenticate env path_txt w of
        (Inl e, w1) \<Rightarrow>
          if is_Exception e then (Inl (SystemExit None), py_print (Printed_exn e) w1)
          else (Inl e, w1)
      | (Inr config, w1) \<Rightarrow>
     (case get_catalog_info env config w1 of
        (Inl e, w2) \<Rightarrow> (Inl e, w2)
      | (Inr _, w2) \<Rightarrow>
     (case new_BBox env coordinates WGS84 of
        Inl m \<Rightarrow> (Inl (LibraryError m), w2)
      | Inr bbox \<Rightarrow>
     (let time_interval = (py ''first-date'', py ''second-date'') in
      case search_data env bbox time_interval config w2 of
        (Inl e, w3) \<Rightarrow> (Inl e, w3)
      | (Inr result_search, w3) \<Rightarrow>
     (let w4 = py_print (Printed_total (length result_search)) w3 in
      selection_loop env config path bbox result_search w4)))))"

subsection \<open>Observations on a run\<close>

text \<open>
  \<open>calls_since w w'\<close> are the calls made between the worlds \<open>w\<close> and \<open>w'\<close>;
  \<open>download_invocations\<close> picks the entries into \<^verbatim>\<open>download_data\<close> (scene id and date),
  \<open>submitted\<close> the processing requests run with \<^verbatim>\<open>get_data\<close>, and \<open>prompts\<close> the
  prompts among what was printed.
\<close>

definition calls_since :: "world \<Rightarrow> world \<Rightarrow> call list" where
  "calls_since w w' = drop (length (calls w)) (calls w')"

fun download_invocations :: "call list \<Rightarrow> (str \<times> str) list" where
  "download_invocations [] = []"
| "download_invocations (Enter_download_data sid d # cs) = (sid, d) # download_invocations cs"
| "download_invocations (_ # cs) = download_invocations cs"

fun submitted :: "call list \<Rightarrow> request list" where
  "submitted [] = []"
| "submitted (Get_data r d # cs) = r # submitted cs"
| "submitted (_ # cs) = submitted cs"

fun prompts :: "printed list \<Rightarrow> str list" where
  "prompts [] = []"
| "prompts (Prompt p # xs) = p # prompts xs"
| "prompts (_ # xs) = prompts xs"

subsection \<open>A concrete environment\<close>

text \<open>
  The end-to-end scenario of the specification: bounding box \<^verbatim>\<open>[13.0, 52.0, 13.5, 52.5]\<close>,
  a search that returns the scenes \<^verbatim>\<open>S1\<close> and \<^verbatim>\<open>S2\<close>, a library that writes one TIFF
  into the folder of the request, and a root directory that exists.
\<close>

definition example_scenes :: "scene list" where
  "example_scenes =
     [\<lparr>scene_id = py ''S1'',
       scene_properties = \<lparr>datetime = py ''2023-06-05T10:16:01Z'', eo_cloud_cover = 1\<rparr>\<rparr>,
      \<lparr>scene_id = py ''S2'',
       scene_properties = \<lparr>datetime = py ''2023-06-15T10:16:01Z'', eo_cloud_cover = 0\<rparr>\<rparr>]"

definition example_env :: env where
  "example_env =
     \<lparr>open_rplus = (\<lambda>p. Inr (py '' inst-1 \<newline>client-1\<newline>secret-1\<newline>'')),
      new_SHConfig = (\<lambda>saved. case saved of
                         None \<Rightarrow> Inr \<lparr>instance_id = [], sh_client_id = [], sh_client_secret = []\<rparr>
                       | Some c \<Rightarrow> Inr c),
      save_fails = (\<lambda>c. None),
      get_info = (\<lambda>c. Inr (py ''catalog'')),
      search = (\<lambda>q c. Inr \<lparr>yields = example_scenes, breaks_with = None\<rparr>),
      new_BBox = (\<lambda>xs c. Inr \<lparr>bbox_coords = xs, bbox_crs = c\<rparr>),
      bbox_to_dimensions = (\<lambda>b r. Inr (3390, 5570)),
      get_data = (\<lambda>r d. (None, d(path_join (req_data_folder r) (py ''response.tiff'') \<mapsto> File))),
      mkdir_refused = (\<lambda>d p. None),
      os_walk = (\<lambda>d p. [(p, [], [py ''response.tiff''])])\<rparr>"

definition example_config :: config where
  "example_config =
     \<lparr>instance_id = py ''inst-1'', sh_client_id = py ''client-1'',
      sh_client_secret = py ''secret-1''\<rparr>"

definition example_coordinates :: "rat \<times> rat \<times> rat \<times> rat" where
  "example_coordinates = (13, 52, 27 / 2, 105 / 2)"

definition example_bbox :: bbox where
  "example_bbox = \<lparr>bbox_coords = example_coordinates, bbox_crs = WGS84\<rparr>"

definition example_world_dangling :: world where
  "example_world_dangling =
     \<lparr>disk = [py ''/home/user'' \<mapsto> Dir, py ''/home/user/data'' \<mapsto> Dangling], stdin = [],
      stdout = [], saved_config = None, calls = []\<rparr>"

definition example_world_blocked :: world where
  "example_world_blocked =
     \<lparr>disk = [py ''/home/user'' \<mapsto> Dir, py ''/home/user/data'' \<mapsto> File,
              py ''/home/user/data/'' \<mapsto> Dangling], stdin = [],
      stdout = [], saved_config = None, calls = []\<rparr>"

definition example_world :: "str list \<Rightarrow> world" where
  "example_world typed =
     \<lparr>disk = [py ''/home/user'' \<mapsto> Dir], stdin = map Line typed, stdout = [],
      saved_config = None, calls = []\<rparr>"

section \<open>The credential loader\<close>

lemma isspace_newline: "isspace 10"
  by (simp add: isspace_def)

lemma strip_newline: "strip (l @ [10]) = strip l"
proof (cases "\<forall>c \<in> set l. isspace c")
  case True
  then have "\<forall>c \<in> set (l @ [10]). isspace c"
    by (simp add: isspace_newline)
  then have "dropWhile isspace (l @ [10]) = []"
    by (simp only: dropWhile_eq_Nil_conv)
  moreover from True have "dropWhile isspace l = []"
    by (simp only: dropWhile_eq_Nil_conv)
  ultimately show ?thesis by (simp only: strip_def)
next
  case False
  then have "dropWhile isspace (l @ [10]) = dropWhile isspace l @ [10]"
    by (auto simp: dropWhile_append1)
  then show ?thesis by (simp add: strip_def isspace_newline)
qed

lemma readline_line: "10 \<notin> set l \<Longrightarrow> readline (l @ 10 # rest) = (l @ [10], rest)"
  by (induction l) auto

lemma readline_last: "10 \<notin> set l \<Longrightarrow> readline l = (l, [])"
  by (induction l) auto

lemma readline_last_line:
  assumes "10 \<notin> set l" and "tail = [] \<or> hd tail = 10"
  shows "\<exists>l' rest. readline (l @ tail) = (l', rest) \<and> strip l' = strip l"
proof (cases tail)
  case Nil
  with assms(1) show ?thesis by (simp add: readline_last)
next
  case (Cons c cs)
  with assms have "readline (l @ tail) = (l @ [10], cs)"
    by (simp add: readline_line)
  then show ?thesis by (simp add: strip_newline)
qed

lemma read_parameters_lines:
  assumes "10 \<notin> set l1" "10 \<notin> set l2" "10 \<notin> set l3"
    and "tail = [] \<or> hd tail = 10"
  shows "fst (read_parameters (l1 @ [10] @ l2 @ [10] @ l3 @ tail)) =
           \<lparr>param_instance_id = strip l1, param_client_id = strip l2,
            param_client_secret = strip l3\<rparr>"
proof -
  obtain l' rest where "readline (l3 @ tail) = (l', rest)" "strip l' = strip l3"
    using readline_last_line [OF assms(3,4)] by blast
  then show ?thesis
    using assms(1,2) by (simp add: read_parameters_def readline_line strip_newline)
qed

lemma authenticate_calls:
  assumes "new_SHConfig env (saved_config w) = Inr config0"
  shows "calls (snd (authenticate env file w)) =
           calls w @ [Config_save \<lparr>instance_id = param_instance_id (fst (read_parameters file)),
                                   sh_client_id = param_client_id (fst (read_parameters file)),
                                   sh_client_secret =
                                     param_client_secret (fst (read_parameters file))\<rparr>]"
  using assms
  by (simp add: authenticate_def config_save_def py_print_def record_call_def
        py_input_def Let_def split: option.splits list.splits keyboard.splits)

text \<open>
  Claim C5. When the credential source holds three lines (each free of newlines, the third
  ended by a newline or by the end of the file), the loader reads exactly the three lines,
  stripped of surrounding whitespace, in file order, into instance id, client id and client
  secret; \<^verbatim>\<open>authenticate\<close> assigns them unchanged to the configuration it saves, whatever
  they are: nothing is validated.
\<close>

theorem credential_loader_three_lines:
  assumes "10 \<notin> set l1" and "10 \<notin> set l2" and "10 \<notin> set l3"
    and "tail = [] \<or> hd tail = 10"
    and "new_SHConfig env (saved_config w) = Inr config0"
  shows "fst (read_parameters (l1 @ [10] @ l2 @ [10] @ l3 @ tail)) =
           \<lparr>param_instance_id = strip l1, param_client_id = strip l2,
            param_client_secret = strip l3\<rparr>
       \<and> calls_since w (snd (authenticate env (l1 @ [10] @ l2 @ [10] @ l3 @ tail) w)) =
           [Config_save \<lparr>instance_id = strip l1, sh_client_id = strip l2,
                         sh_client_secret = strip l3\<rparr>]"
proof -
  let ?file = "l1 @ [10] @ l2 @ [10] @ l3 @ tail"
  have p: "fst (read_parameters ?file) =
           \<lparr>param_instance_id = strip l1, param_client_id = strip l2,
            param_client_secret = strip l3\<rparr>"
    using assms(1-4) by (rule read_parameters_lines)
  have "calls (snd (authenticate env ?file w)) =
          calls w @ [Config_save \<lparr>instance_id = strip l1, sh_client_id = strip l2,
                                  sh_client_secret = strip l3\<rparr>]"
    unfolding authenticate_calls [OF assms(5)] p by simp
  then show ?thesis using p by (simp add: calls_since_def)
qed

theorem credential_loader_three_lines_witness:
  "10 \<notin> set (py '' inst-1 '') \<and> 10 \<notin> set (py ''client-1'') \<and> 10 \<notin> set (py ''secret-1'')
   \<and> ([10::nat] = [] \<or> hd [10::nat] = 10)
   \<and> new_SHConfig example_env (saved_config (example_world [])) =
       Inr \<lparr>instance_id = [], sh_client_id = [], sh_client_secret = []\<rparr>
   \<and> fst (read_parameters (py '' inst-1 \<newline>client-1\<newline>secret-1\<newline>'')) =
       \<lparr>param_instance_id = py ''inst-1'', param_client_id = py ''client-1'',
        param_client_secret = py ''secret-1''\<rparr>
   \<and> calls_since (example_world [])
        (snd (authenticate example_env (py '' inst-1 \<newline>client-1\<newline>secret-1\<newline>'')
               (example_world []))) =
       [Config_save \<lparr>instance_id = py ''inst-1'', sh_client_id = py ''client-1'',
                     sh_client_secret = py ''secret-1''\<rparr>]"
proof -
  have a: "10 \<notin> set (py '' inst-1 '')" "10 \<notin> set (py ''client-1'')"
    "10 \<notin> set (py ''secret-1'')" "[10::nat] = [] \<or> hd [10::nat] = 10"
    by (simp_all add: py_def)
  have b: "new_SHConfig example_env (saved_config (example_world [])) =
       Inr \<lparr>instance_id = [], sh_client_id = [], sh_client_secret = []\<rparr>"
    by (simp add: example_env_def example_world_def)
  have s: "strip (py '' inst-1 '') = py ''inst-1''" "strip (py ''client-1'') = py ''client-1''"
    "strip (py ''secret-1'') = py ''secret-1''"
    by (simp_all add: strip_def py_def isspace_def)
  have f: "py '' inst-1 '' @ [10] @ py ''client-1'' @ [10] @ py ''secret-1'' @ [10]
        = py '' inst-1 \<newline>client-1\<newline>secret-1\<newline>''"
    by (simp add: py_def)
  show ?thesis
    using credential_loader_three_lines [OF a b] a b unfolding s f by simp
qed

section \<open>What each call leaves unchanged\<close>

lemma prompts_append: "prompts (xs @ ys) = prompts xs @ prompts ys"
  by (induction xs rule: prompts.induct) simp_all

lemma download_invocations_append:
  "download_invocations (xs @ ys) = download_invocations xs @ download_invocations ys"
  by (induction xs rule: download_invocations.induct) simp_all

lemma submitted_append: "submitted (xs @ ys) = submitted xs @ submitted ys"
  by (induction xs rule: submitted.induct) simp_all

lemma py_print_frame:
  "calls (py_print x w) = calls w"
  "disk (py_print x w) = disk w"
  "stdin (py_print x w) = stdin w"
  "saved_config (py_print x w) = saved_config w"
  "stdout (py_print x w) = stdout w @ [x]"
  by (simp_all add: py_print_def)

lemma record_call_frame:
  "calls (record_call c w) = calls w @ [c]"
  "disk (record_call c w) = disk w"
  "stdin (record_call c w) = stdin w"
  "saved_config (record_call c w) = saved_config w"
  "stdout (record_call c w) = stdout w"
  by (simp_all add: record_call_def)

lemma print_paths_frame:
  "calls (foldl (\<lambda>w filename. py_print (Printed_path (path_join folder filename)) w) w fs) = calls w"
  "disk (foldl (\<lambda>w filename. py_print (Printed_path (path_join folder filename)) w) w fs) = disk w"
  "stdin (foldl (\<lambda>w filename. py_print (Printed_path (path_join folder filename)) w) w fs) = stdin w"
  "saved_config (foldl (\<lambda>w filename. py_print (Printed_path (path_join folder filename)) w) w fs)
     = saved_config w"
  "prompts (stdout (foldl (\<lambda>w filename. py_print (Printed_path (path_join folder filename)) w) w fs))
     = prompts (stdout w)"
  by (induction fs arbitrary: w) (simp_all add: py_print_frame prompts_append)

lemma print_walk_frame:
  "calls (print_walk ts w) = calls w"
  "disk (print_walk ts w) = disk w"
  "stdin (print_walk ts w) = stdin w"
  "saved_config (print_walk ts w) = saved_config w"
  "prompts (stdout (print_walk ts w)) = prompts (stdout w)"
  unfolding print_walk_def
  by (induction ts arbitrary: w) (simp_all add: print_paths_frame split: prod.splits)

lemma os_mkdir_frame:
  "calls (snd (os_mkdir env p w)) = calls w @ [Mkdir p]"
  "stdin (snd (os_mkdir env p w)) = stdin w"
  "saved_config (snd (os_mkdir env p w)) = saved_config w"
  "stdout (snd (os_mkdir env p w)) = stdout w"
  by (simp_all add: os_mkdir_def record_call_def Let_def split: option.splits)


lemma os_mkdir_result:
  "fst (os_mkdir env p w) =
     (if disk w p \<noteq> None then Inl (FileExistsError p)
      else case mkdir_refused env (disk w) p of Some m \<Rightarrow> Inl (OSError m) | None \<Rightarrow> Inr ())"
  by (simp add: os_mkdir_def Let_def split: option.splits)

lemma os_mkdir_disk:
  "disk (snd (os_mkdir env p w)) =
     (if fst (os_mkdir env p w) = Inr () then (disk w)(p \<mapsto> Dir) else disk w)"
  by (simp add: os_mkdir_def record_call_def Let_def split: option.splits)

lemma lib_bbox_to_dimensions_frame:
  "calls (snd (lib_bbox_to_dimensions env b r w)) = calls w @ [Bbox_to_dimensions b r]"
  "disk (snd (lib_bbox_to_dimensions env b r w)) = disk w"
  "stdin (snd (lib_bbox_to_dimensions env b r w)) = stdin w"
  "saved_config (snd (lib_bbox_to_dimensions env b r w)) = saved_config w"
  "stdout (snd (lib_bbox_to_dimensions env b r w)) = stdout w"
  by (simp_all add: lib_bbox_to_dimensions_def record_call_def Let_def split: sum.splits)

lemma lib_bbox_to_dimensions_result:
  "fst (lib_bbox_to_dimensions env b r w) =
     (case bbox_to_dimensions env b r of Inl m \<Rightarrow> Inl (LibraryError m) | Inr dims \<Rightarrow> Inr dims)"
  by (simp add: lib_bbox_to_dimensions_def Let_def split: sum.splits)

lemma lib_get_data_frame:
  "calls (snd (lib_get_data env r w)) = calls w @ [Get_data r (disk w)]"
  "stdin (snd (lib_get_data env r w)) = stdin w"
  "saved_config (snd (lib_get_data env r w)) = saved_config w"
  "stdout (snd (lib_get_data env r w)) = stdout w"
  by (simp_all add: lib_get_data_def record_call_def Let_def split: prod.splits option.splits)

lemma lib_get_data_result:
  "fst (lib_get_data env r w) =
     (case fst (get_data env r (disk w)) of Some m \<Rightarrow> Inl (LibraryError m) | None \<Rightarrow> Inr ())"
  by (simp add: lib_get_data_def Let_def split: prod.splits option.splits)

lemmas world_frames =
  py_print_frame record_call_frame print_walk_frame os_mkdir_frame
  lib_bbox_to_dimensions_frame lib_get_data_frame



lemma os_mkdir_run:
  assumes "os_mkdir env p w = (r, w1)"
  shows "calls w1 = calls w @ [Mkdir p]" and "stdin w1 = stdin w" and "stdout w1 = stdout w"
    and "saved_config w1 = saved_config w"
    and "r = (if disk w p \<noteq> None then Inl (FileExistsError p)
              else case mkdir_refused env (disk w) p of
                     Some m \<Rightarrow> Inl (OSError m) | None \<Rightarrow> Inr ())"
    and "disk w1 = (if r = Inr () then (disk w)(p \<mapsto> Dir) else disk w)"
  using assms os_mkdir_frame [of env p w] os_mkdir_result [of env p w] os_mkdir_disk [of env p w]
  by simp_all

lemma lib_bbox_to_dimensions_run:
  assumes "lib_bbox_to_dimensions env b res w = (r, w1)"
  shows "w1 = record_call (Bbox_to_dimensions b res) w"
    and "r = (case bbox_to_dimensions env b res of
                Inl m \<Rightarrow> Inl (LibraryError m) | Inr dims \<Rightarrow> Inr dims)"
  using assms by (auto simp: lib_bbox_to_dimensions_def Let_def split: sum.splits)

lemma lib_get_data_run:
  assumes "lib_get_data env rq w = (r, w1)"
  shows "calls w1 = calls w @ [Get_data rq (disk w)]" and "stdin w1 = stdin w"
    and "stdout w1 = stdout w" and "saved_config w1 = saved_config w"
    and "r = (case fst (get_data env rq (disk w)) of
                Some m \<Rightarrow> Inl (LibraryError m) | None \<Rightarrow> Inr ())"
    and "disk w1 = snd (get_data env rq (disk w))"
  using assms
  by (auto simp: lib_get_data_def record_call_def Let_def split: prod.splits option.splits)

lemma ensure_dir_run:
  assumes "(if \<not> os_path_exists w p then os_mkdir env p w else (Inr (), w)) = (r, w1)"
  shows "calls w1 = calls w \<or> calls w1 = calls w @ [Mkdir p]"
    and "stdin w1 = stdin w" and "stdout w1 = stdout w"
    and "saved_config w1 = saved_config w"
    and "r = Inr () \<or> (\<exists>m. r = Inl (OSError m))
         \<or> (r = Inl (FileExistsError p) \<and> disk w p = Some Dangling)"
    and "r = Inr () \<Longrightarrow> disk w1 p = Some Dir \<or> disk w1 p = Some File"
    and "r = Inr () \<Longrightarrow> disk w p = None \<Longrightarrow> disk w1 p = Some Dir"
    and "disk w1 q = disk w q \<or> (q = p \<and> disk w q = None \<and> disk w1 q = Some Dir)"
    and "os_path_exists w p \<Longrightarrow> calls w1 = calls w"
proof -
  have "(calls w1 = calls w \<or> calls w1 = calls w @ [Mkdir p])
      \<and> stdin w1 = stdin w \<and> stdout w1 = stdout w \<and> saved_config w1 = saved_config w
      \<and> (r = Inr () \<or> (\<exists>m. r = Inl (OSError m))
         \<or> (r = Inl (FileExistsError p) \<and> disk w p = Some Dangling))
      \<and> (r = Inr () \<longrightarrow> disk w1 p = Some Dir \<or> disk w1 p = Some File)
      \<and> (r = Inr () \<longrightarrow> disk w p = None \<longrightarrow> disk w1 p = Some Dir)
      \<and> (disk w1 q = disk w q \<or> (q = p \<and> disk w q = None \<and> disk w1 q = Some Dir))
      \<and> (os_path_exists w p \<longrightarrow> calls w1 = calls w)"
  proof (cases "os_path_exists w p")
    case True
    with assms have "r = Inr ()" and "w1 = w"
      by simp_all
    with True show ?thesis by (auto simp: os_path_exists_def)
  next
    case False
    with assms have "os_mkdir env p w = (r, w1)"
      by simp
    note run = os_mkdir_run [OF this]
    have d: "disk w1 = (if r = Inr () then (disk w)(p \<mapsto> Dir) else disk w)"
      by (rule run(6))
    show ?thesis
    proof (cases "disk w p")
      case None
      with run(5) have res: "r = Inr () \<or> (\<exists>m. r = Inl (OSError m))"
        by (simp split: option.splits)
      have "r = Inr () \<longrightarrow> disk w1 p = Some Dir"
        by (simp add: d)
      moreover have "disk w1 q = disk w q \<or> (q = p \<and> disk w q = None \<and> disk w1 q = Some Dir)"
        using None by (cases "q = p") (simp_all add: d)
      ultimately show ?thesis
        using False run(1-4) res by auto
    next
      case (Some n)
      with False have n: "disk w p = Some Dangling"
        by (cases n) (simp_all add: os_path_exists_def)
      with run(5) have res: "r = Inl (FileExistsError p)"
        by simp
      with d have "disk w1 = disk w"
        by simp
      with False run(1-4) res n show ?thesis
        by simp
    qed
  qed
  then show "calls w1 = calls w \<or> calls w1 = calls w @ [Mkdir p]"
    and "stdin w1 = stdin w" and "stdout w1 = stdout w"
    and "saved_config w1 = saved_config w"
    and "r = Inr () \<or> (\<exists>m. r = Inl (OSError m))
         \<or> (r = Inl (FileExistsError p) \<and> disk w p = Some Dangling)"
    and "r = Inr () \<Longrightarrow> disk w1 p = Some Dir \<or> disk w1 p = Some File"
    and "r = Inr () \<Longrightarrow> disk w p = None \<Longrightarrow> disk w1 p = Some Dir"
    and "disk w1 q = disk w q \<or> (q = p \<and> disk w q = None \<and> disk w1 q = Some Dir)"
    and "os_path_exists w p \<Longrightarrow> calls w1 = calls w"
    by simp_all
qed

section \<open>The run of \<^verbatim>\<open>download_data\<close>\<close>

text \<open>
  One invocation adds to the trace its own entry, then at most the two \<^verbatim>\<open>os.mkdir\<close>
  calls, then at most \<^verbatim>\<open>bbox_to_dimensions\<close> and one \<^verbatim>\<open>get_data\<close>; the request and
  the file system found by \<^verbatim>\<open>get_data\<close> are as stated. It reads no input, prompts for
  nothing, leaves the saved configuration alone, and raises only errors of the operating
  system or of the library; \<open>FileExistsError\<close> only for one of the two folders, when
  its name is dangling. Until the request is run the file system changes only by the
  directories created, and afterwards it is what \<^verbatim>\<open>get_data\<close> leaves behind.
\<close>

lemma download_data_run:
  assumes run: "download_data env config path sid bbox new_date w = (r, w')"
  shows "\<exists>ms rest.
           calls w' = calls w @ Enter_download_data sid new_date # ms @ rest
         \<and> set ms \<subseteq> {Mkdir (path_join path (py ''data'')),
                      Mkdir (path_join (path_join path (py ''data'')) sid)}
         \<and> (rest = [] \<or> rest = [Bbox_to_dimensions bbox 10]
            \<or> (\<exists>img_size d.
                  bbox_to_dimensions env bbox 10 = Inr img_size
                \<and> rest = [Bbox_to_dimensions bbox 10,
                     Get_data
                       (request_all_bands config
                          (path_join (path_join path (py ''data'')) sid) new_date bbox img_size)
                       d]
                \<and> (d (path_join path (py ''data'')) = Some Dir
                   \<or> d (path_join path (py ''data'')) = Some File)
                \<and> (d (path_join (path_join path (py ''data'')) sid) = Some Dir
                   \<or> d (path_join (path_join path (py ''data'')) sid) = Some File)
                \<and> (disk w (path_join path (py ''data'')) = None \<longrightarrow>
                     d (path_join path (py ''data'')) = Some Dir)
                \<and> (disk w (path_join (path_join path (py ''data'')) sid) = None \<longrightarrow>
                     d (path_join (path_join path (py ''data'')) sid) = Some Dir)
                \<and> (\<forall>q. d q = disk w q \<or> (disk w q = None \<and> d q = Some Dir))
                \<and> disk w' =
                    snd (get_data env
                           (request_all_bands config
                              (path_join (path_join path (py ''data'')) sid) new_date bbox
                              img_size) d)))
         \<and> (r = Inr () \<longrightarrow> length rest = 2)
         \<and> (os_path_exists w (path_join path (py ''data'')) \<longrightarrow>
              os_path_exists w (path_join (path_join path (py ''data'')) sid) \<longrightarrow> ms = [])
         \<and> (length rest < 2 \<longrightarrow>
              (\<forall>q. disk w' q = disk w q \<or> (disk w q = None \<and> disk w' q = Some Dir)))"
    (is "\<exists>ms rest. ?C ms rest")
    and "stdin w' = stdin w"
    and "saved_config w' = saved_config w"
    and "prompts (stdout w') = prompts (stdout w)"
    and "r = Inr () \<or> (\<exists>m. r = Inl (OSError m)) \<or> (\<exists>m. r = Inl (LibraryError m))
         \<or> (\<exists>p. r = Inl (FileExistsError p) \<and> disk w p = Some Dangling
               \<and> (p = path_join path (py ''data'')
                  \<or> p = path_join (path_join path (py ''data'')) sid))"
proof -
  let ?D = "path_join path (py ''data'')"
  let ?F = "path_join (path_join path (py ''data'')) sid"
  let ?w0 = "record_call (Enter_download_data sid new_date) w"
  obtain r1 w1 where s1:
    "(if \<not> os_path_exists ?w0 ?D then os_mkdir env ?D ?w0 else (Inr (), ?w0)) = (r1, w1)"
    by (meson surj_pair)
  note f1 = ensure_dir_run [OF s1]
  obtain r2 w2 where s2:
    "(if \<not> os_path_exists w1 ?F then os_mkdir env ?F w1 else (Inr (), w1)) = (r2, w2)"
    by (meson surj_pair)
  note f2 = ensure_dir_run [OF s2]
  obtain r3 w3 where s3: "lib_bbox_to_dimensions env bbox 10 w2 = (r3, w3)"
    by (meson surj_pair)
  note f3 = lib_bbox_to_dimensions_run [OF s3]
  have e0: "os_path_exists ?w0 q = os_path_exists w q" for q
    by (simp add: os_path_exists_def record_call_frame)
  have c1: "\<exists>ms. calls w1 = calls w @ Enter_download_data sid new_date # ms
                \<and> set ms \<subseteq> {Mkdir ?D} \<and> (os_path_exists w ?D \<longrightarrow> ms = [])"
    using f1(1,9) by (auto simp: record_call_frame e0)
  then obtain ms1 where ms1: "calls w1 = calls w @ Enter_download_data sid new_date # ms1"
    "set ms1 \<subseteq> {Mkdir ?D}" "os_path_exists w ?D \<longrightarrow> ms1 = []" by blast
  have "\<exists>ms. calls w2 = calls w1 @ ms \<and> set ms \<subseteq> {Mkdir ?F}
           \<and> (os_path_exists w1 ?F \<longrightarrow> ms = [])"
    using f2(1,9) by auto
  then obtain ms2 where ms2: "calls w2 = calls w1 @ ms2" "set ms2 \<subseteq> {Mkdir ?F}"
    "os_path_exists w1 ?F \<longrightarrow> ms2 = []" by blast
  have keepF: "os_path_exists w ?F \<longrightarrow> os_path_exists w1 ?F"
    using f1(8) [of ?F] by (auto simp: record_call_frame os_path_exists_def)
  have c2: "calls w2 = calls w @ Enter_download_data sid new_date # (ms1 @ ms2)"
    "set (ms1 @ ms2) \<subseteq> {Mkdir ?D, Mkdir ?F}"
    "os_path_exists w ?D \<longrightarrow> os_path_exists w ?F \<longrightarrow> ms1 @ ms2 = []"
    using ms1 ms2 keepF by auto
  have io1: "stdin w1 = stdin w" "saved_config w1 = saved_config w" "stdout w1 = stdout w"
    using f1(2-4) by (simp_all add: record_call_frame)
  have io2: "stdin w2 = stdin w" "saved_config w2 = saved_config w" "stdout w2 = stdout w"
    using f2(2-4) io1 by simp_all
  have d1: "disk w1 ?D = Some Dir \<or> disk w1 ?D = Some File" "disk w ?D = None \<longrightarrow> disk w1 ?D = Some Dir"
    if "r1 = Inr ()"
    using f1(6,7) that by (simp_all add: record_call_frame)
  have d1F: "disk w1 ?F = disk w ?F \<or> (disk w ?F = None \<and> disk w1 ?F = Some Dir)"
    using f1(8) [of ?F] by (auto simp: record_call_frame)
  have d2: "disk w2 ?D = Some Dir \<or> disk w2 ?D = Some File"
    "disk w ?D = None \<longrightarrow> disk w2 ?D = Some Dir"
    "disk w2 ?F = Some Dir \<or> disk w2 ?F = Some File" "disk w ?F = None \<longrightarrow> disk w2 ?F = Some Dir"
    if ok: "r1 = Inr ()" "r2 = Inr ()"
  proof -
    have keep: "disk w2 ?D = disk w1 ?D"
      using f2(8) [of ?D] d1(1) [OF ok(1)] by auto
    show "disk w2 ?D = Some Dir \<or> disk w2 ?D = Some File"
      "disk w ?D = None \<longrightarrow> disk w2 ?D = Some Dir"
      using keep d1 [OF ok(1)] by simp_all
    show "disk w2 ?F = Some Dir \<or> disk w2 ?F = Some File" by (rule f2(6) [OF ok(2)])
    show "disk w ?F = None \<longrightarrow> disk w2 ?F = Some Dir"
    proof
      assume none: "disk w ?F = None"
      show "disk w2 ?F = Some Dir"
      proof (cases "disk w1 ?F = None")
        case True
        then show ?thesis by (rule f2(7) [OF ok(2)])
      next
        case False
        with d1F none have "disk w1 ?F = Some Dir" by auto
        moreover have "disk w2 ?F = disk w1 ?F" using f2(8) [of ?F] False by auto
        ultimately show ?thesis by simp
      qed
    qed
  qed
  have dq1: "\<forall>q. disk w1 q = disk w q \<or> (disk w q = None \<and> disk w1 q = Some Dir)"
  proof
    fix q
    from f1(8) [of q]
    show "disk w1 q = disk w q \<or> (disk w q = None \<and> disk w1 q = Some Dir)"
      by (auto simp: record_call_frame)
  qed
  have dq: "\<forall>q. disk w2 q = disk w q \<or> (disk w q = None \<and> disk w2 q = Some Dir)"
  proof
    fix q
    from dq1
    have a: "disk w1 q = disk w q \<or> (disk w q = None \<and> disk w1 q = Some Dir)" ..
    from f2(8) [of q]
    have b: "disk w2 q = disk w1 q \<or> (disk w1 q = None \<and> disk w2 q = Some Dir)"
      by auto
    from a b show "disk w2 q = disk w q \<or> (disk w q = None \<and> disk w2 q = Some Dir)"
      by auto
  qed
  let ?goal = "(\<exists>ms rest. ?C ms rest) \<and> stdin w' = stdin w \<and> saved_config w' = saved_config w
      \<and> prompts (stdout w') = prompts (stdout w)
      \<and> (r = Inr () \<or> (\<exists>m. r = Inl (OSError m)) \<or> (\<exists>m. r = Inl (LibraryError m))
         \<or> (\<exists>p. r = Inl (FileExistsError p) \<and> disk w p = Some Dangling
               \<and> (p = path_join path (py ''data'')
                  \<or> p = path_join (path_join path (py ''data'')) sid)))"
  have g: ?goal
  proof (cases r1)
    case (Inl e)
    with run s1 have res: "r = Inl e" "w' = w1"
      by (simp_all add: download_data_def Let_def)
    have "?C ms1 []" using ms1 res dq1 by auto
    then have P1: "\<exists>ms rest. ?C ms rest" by (intro exI)
    have P2: "stdin w' = stdin w" "saved_config w' = saved_config w"
      "prompts (stdout w') = prompts (stdout w)"
      using io1 res by simp_all
    have P3: "r = Inr () \<or> (\<exists>m. r = Inl (OSError m)) \<or> (\<exists>m. r = Inl (LibraryError m))
         \<or> (\<exists>p. r = Inl (FileExistsError p) \<and> disk w p = Some Dangling
               \<and> (p = path_join path (py ''data'')
                  \<or> p = path_join (path_join path (py ''data'')) sid))"
      using Inl f1(5) res(1) by (auto simp: record_call_frame)
    show ?thesis using P1 P2 P3 by (intro conjI)
  next
    case ok1: (Inr u1)
    show ?thesis
    proof (cases r2)
      case (Inl e)
      with run s1 s2 ok1 have res: "r = Inl e" "w' = w2"
        by (simp_all add: download_data_def Let_def)
      have "?C (ms1 @ ms2) []" using c2 res dq by simp
      then have P1: "\<exists>ms rest. ?C ms rest" by (intro exI)
      have P2: "stdin w' = stdin w" "saved_config w' = saved_config w"
        "prompts (stdout w') = prompts (stdout w)"
        using io2 res by simp_all
      have P3: "r = Inr () \<or> (\<exists>m. r = Inl (OSError m)) \<or> (\<exists>m. r = Inl (LibraryError m))
         \<or> (\<exists>p. r = Inl (FileExistsError p) \<and> disk w p = Some Dangling
               \<and> (p = path_join path (py ''data'')
                  \<or> p = path_join (path_join path (py ''data'')) sid))"
        using Inl f2(5) res(1) d1F by auto
      show ?thesis using P1 P2 P3 by (intro conjI)
    next
      case ok2: (Inr u2)
      have dd: "disk w2 ?D = Some Dir \<or> disk w2 ?D = Some File"
        "disk w ?D = None \<longrightarrow> disk w2 ?D = Some Dir"
        "disk w2 ?F = Some Dir \<or> disk w2 ?F = Some File" "disk w ?F = None \<longrightarrow> disk w2 ?F = Some Dir"
        using d2 ok1 ok2 by simp_all
      have c3: "calls w3 = calls w @ Enter_download_data sid new_date # (ms1 @ ms2)
                   @ [Bbox_to_dimensions bbox 10]"
        and io3: "stdin w3 = stdin w" "saved_config w3 = saved_config w" "stdout w3 = stdout w"
        and d3: "disk w3 = disk w2"
        using f3(1) c2(1) io2 by (simp_all add: record_call_frame)
      show ?thesis
      proof (cases r3)
        case (Inl e)
        with run s1 s2 s3 ok1 ok2 have res: "r = Inl e" "w' = w3"
          by (simp_all add: download_data_def Let_def)
        have "?C (ms1 @ ms2) [Bbox_to_dimensions bbox 10]"
          using c3 c2(2,3) res dq d3 by simp
        then have P1: "\<exists>ms rest. ?C ms rest" by (intro exI)
        have P2: "stdin w' = stdin w" "saved_config w' = saved_config w"
          "prompts (stdout w') = prompts (stdout w)"
          using io3 res by simp_all
        have P3: "r = Inr () \<or> (\<exists>m. r = Inl (OSError m)) \<or> (\<exists>m. r = Inl (LibraryError m))
         \<or> (\<exists>p. r = Inl (FileExistsError p) \<and> disk w p = Some Dangling
               \<and> (p = path_join path (py ''data'')
                  \<or> p = path_join (path_join path (py ''data'')) sid))"
          using Inl f3(2) res(1) by (auto split: sum.splits)
        show ?thesis using P1 P2 P3 by (intro conjI)
      next
        case ok3: (Inr img_size)
        let ?rq = "request_all_bands config ?F new_date bbox img_size"
        let ?w4 = "py_print (Printed_size img_size) w3"
        obtain r4 w5 where s4: "lib_get_data env ?rq ?w4 = (r4, w5)"
          by (meson surj_pair)
        note f4 = lib_get_data_run [OF s4]
        from ok3 f3(2) have dims: "bbox_to_dimensions env bbox 10 = Inr img_size"
          by (simp split: sum.splits)
        have c5: "calls w5 = calls w @ Enter_download_data sid new_date # (ms1 @ ms2)
                   @ [Bbox_to_dimensions bbox 10, Get_data ?rq (disk w2)]"
          and io5: "stdin w5 = stdin w" "saved_config w5 = saved_config w"
            "prompts (stdout w5) = prompts (stdout w)"
          and d5: "disk w5 = snd (get_data env ?rq (disk w2))"
          using f4(1-4,6) c3 io3 d3 by (simp_all add: py_print_frame prompts_append)
        have C5: "?C (ms1 @ ms2) [Bbox_to_dimensions bbox 10, Get_data ?rq (disk w2)]"
          if "calls w' = calls w5" and "disk w' = disk w5"
          using that c5 c2(2,3) dims dd dq d5 by simp
        show ?thesis
        proof (cases r4)
          case (Inl e)
          with run s1 s2 s3 s4 ok1 ok2 ok3 have res: "r = Inl e" "w' = w5"
            by (simp_all add: download_data_def Let_def)
          have "?C (ms1 @ ms2) [Bbox_to_dimensions bbox 10, Get_data ?rq (disk w2)]"
            using res by (intro C5) simp_all
          then have P1: "\<exists>ms rest. ?C ms rest" by (intro exI)
          have P2: "stdin w' = stdin w" "saved_config w' = saved_config w"
            "prompts (stdout w') = prompts (stdout w)"
            using io5 res by simp_all
          have P3: "r = Inr () \<or> (\<exists>m. r = Inl (OSError m)) \<or> (\<exists>m. r = Inl (LibraryError m))
         \<or> (\<exists>p. r = Inl (FileExistsError p) \<and> disk w p = Some Dangling
               \<and> (p = path_join path (py ''data'')
                  \<or> p = path_join (path_join path (py ''data'')) sid))"
            using Inl f4(5) res(1) by (auto split: option.splits)
          show ?thesis using P1 P2 P3 by (intro conjI)
        next
          case ok4: (Inr u4)
          let ?w6 = "py_print (Printed_text (py
                 ''An output folder has been created, and a TIFF file with 13 bands has been created with the following format:\<newline>'')) w5"
          from run s1 s2 s3 s4 ok1 ok2 ok3 ok4
          have res: "r = Inr ()" "w' = print_walk (os_walk env (disk ?w6) ?F) ?w6"
            by (simp_all add: download_data_def Let_def)
          have fin: "calls w' = calls w5" "stdin w' = stdin w" "saved_config w' = saved_config w"
            "prompts (stdout w') = prompts (stdout w)" "disk w' = disk w5"
            using io5 by (simp_all add: res(2) print_walk_frame py_print_frame prompts_append)
          have "?C (ms1 @ ms2) [Bbox_to_dimensions bbox 10, Get_data ?rq (disk w2)]"
            by (rule C5 [OF fin(1,5)])
          then have P1: "\<exists>ms rest. ?C ms rest" by (intro exI)
          have P3: "r = Inr () \<or> (\<exists>m. r = Inl (OSError m)) \<or> (\<exists>m. r = Inl (LibraryError m))
         \<or> (\<exists>p. r = Inl (FileExistsError p) \<and> disk w p = Some Dangling
               \<and> (p = path_join path (py ''data'')
                  \<or> p = path_join (path_join path (py ''data'')) sid))"
            using res(1) by simp
          show ?thesis using P1 fin(2-4) P3 by (intro conjI)
        qed
      qed
    qed
  qed
  show "\<exists>ms rest. ?C ms rest"
    by (rule g [THEN conjunct1])
  show "stdin w' = stdin w"
    by (rule g [THEN conjunct2, THEN conjunct1])
  show "saved_config w' = saved_config w"
    by (rule g [THEN conjunct2, THEN conjunct2, THEN conjunct1])
  show "prompts (stdout w') = prompts (stdout w)"
    by (rule g [THEN conjunct2, THEN conjunct2, THEN conjunct2, THEN conjunct1])
  show "r = Inr () \<or> (\<exists>m. r = Inl (OSError m)) \<or> (\<exists>m. r = Inl (LibraryError m))
         \<or> (\<exists>p. r = Inl (FileExistsError p) \<and> disk w p = Some Dangling
               \<and> (p = path_join path (py ''data'')
                  \<or> p = path_join (path_join path (py ''data'')) sid))"
    by (rule g [THEN conjunct2, THEN conjunct2, THEN conjunct2, THEN conjunct2])
qed

text \<open>The same facts as a case distinction on how far the invocation got.\<close>

lemma download_data_cases [consumes 1, case_names no_folder no_size submitted]:
  assumes run: "download_data env config path sid bbox new_date w = (r, w')"
  obtains
    (no_folder) ms where
      "calls w' = calls w @ Enter_download_data sid new_date # ms"
      "set ms \<subseteq> {Mkdir (path_join path (py ''data'')),
                  Mkdir (path_join (path_join path (py ''data'')) sid)}"
      "r \<noteq> Inr ()"
      "os_path_exists w (path_join path (py ''data'')) \<longrightarrow>
              os_path_exists w (path_join (path_join path (py ''data'')) sid) \<longrightarrow> ms = []"
      "\<forall>q. disk w' q = disk w q \<or> (disk w q = None \<and> disk w' q = Some Dir)"
  | (no_size) ms where
      "calls w' = calls w @ Enter_download_data sid new_date # ms @ [Bbox_to_dimensions bbox 10]"
      "set ms \<subseteq> {Mkdir (path_join path (py ''data'')),
                  Mkdir (path_join (path_join path (py ''data'')) sid)}"
      "r \<noteq> Inr ()"
      "os_path_exists w (path_join path (py ''data'')) \<longrightarrow>
              os_path_exists w (path_join (path_join path (py ''data'')) sid) \<longrightarrow> ms = []"
      "\<forall>q. disk w' q = disk w q \<or> (disk w q = None \<and> disk w' q = Some Dir)"
  | (submitted) ms img_size d where
      "calls w' = calls w @ Enter_download_data sid new_date # ms @
         [Bbox_to_dimensions bbox 10,
          Get_data (request_all_bands config (path_join (path_join path (py ''data'')) sid)
                      new_date bbox img_size) d]"
      "set ms \<subseteq> {Mkdir (path_join path (py ''data'')),
                  Mkdir (path_join (path_join path (py ''data'')) sid)}"
      "bbox_to_dimensions env bbox 10 = Inr img_size"
      "(d (path_join path (py ''data'')) = Some Dir
                   \<or> d (path_join path (py ''data'')) = Some File)"
      "(d (path_join (path_join path (py ''data'')) sid) = Some Dir
                   \<or> d (path_join (path_join path (py ''data'')) sid) = Some File)"
      "disk w (path_join path (py ''data'')) = None \<longrightarrow>
         d (path_join path (py ''data'')) = Some Dir"
      "disk w (path_join (path_join path (py ''data'')) sid) = None \<longrightarrow>
         d (path_join (path_join path (py ''data'')) sid) = Some Dir"
      "os_path_exists w (path_join path (py ''data'')) \<longrightarrow>
              os_path_exists w (path_join (path_join path (py ''data'')) sid) \<longrightarrow> ms = []"
      "\<forall>q. d q = disk w q \<or> (disk w q = None \<and> d q = Some Dir)"
      "disk w' = snd (get_data env
                       (request_all_bands config (path_join (path_join path (py ''data'')) sid)
                          new_date bbox img_size) d)"
proof -
  from download_data_run(1) [OF run] obtain ms where "\<exists>rest.
           calls w' = calls w @ Enter_download_data sid new_date # ms @ rest
         \<and> set ms \<subseteq> {Mkdir (path_join path (py ''data'')),
                      Mkdir (path_join (path_join path (py ''data'')) sid)}
         \<and> (rest = [] \<or> rest = [Bbox_to_dimensions bbox 10]
            \<or> (\<exists>img_size d.
                  bbox_to_dimensions env bbox 10 = Inr img_size
                \<and> rest = [Bbox_to_dimensions bbox 10,
                     Get_data
                       (request_all_bands config
                          (path_join (path_join path (py ''data'')) sid) new_date bbox img_size)
                       d]
                \<and> (d (path_join path (py ''data'')) = Some Dir
                   \<or> d (path_join path (py ''data'')) = Some File)
                \<and> (d (path_join (path_join path (py ''data'')) sid) = Some Dir
                   \<or> d (path_join (path_join path (py ''data'')) sid) = Some File)
                \<and> (disk w (path_join path (py ''data'')) = None \<longrightarrow>
                     d (path_join path (py ''data'')) = Some Dir)
                \<and> (disk w (path_join (path_join path (py ''data'')) sid) = None \<longrightarrow>
                     d (path_join (path_join path (py ''data'')) sid) = Some Dir)
                \<and> (\<forall>q. d q = disk w q \<or> (disk w q = None \<and> d q = Some Dir))
                \<and> disk w' =
                    snd (get_data env
                           (request_all_bands config
                              (path_join (path_join path (py ''data'')) sid) new_date bbox
                              img_size) d)))
         \<and> (r = Inr () \<longrightarrow> length rest = 2)
         \<and> (os_path_exists w (path_join path (py ''data'')) \<longrightarrow>
              os_path_exists w (path_join (path_join path (py ''data'')) sid) \<longrightarrow> ms = [])
         \<and> (length rest < 2 \<longrightarrow>
              (\<forall>q. disk w' q = disk w q \<or> (disk w q = None \<and> disk w' q = Some Dir)))" ..
  then obtain rest where C:
          "calls w' = calls w @ Enter_download_data sid new_date # ms @ rest
         \<and> set ms \<subseteq> {Mkdir (path_join path (py ''data'')),
                      Mkdir (path_join (path_join path (py ''data'')) sid)}
         \<and> (rest = [] \<or> rest = [Bbox_to_dimensions bbox 10]
            \<or> (\<exists>img_size d.
                  bbox_to_dimensions env bbox 10 = Inr img_size
                \<and> rest = [Bbox_to_dimensions bbox 10,
                     Get_data
                       (request_all_bands config
                          (path_join (path_join path (py ''data'')) sid) new_date bbox img_size)
                       d]
                \<and> (d (path_join path (py ''data'')) = Some Dir
                   \<or> d (path_join path (py ''data'')) = Some File)
                \<and> (d (path_join (path_join path (py ''data'')) sid) = Some Dir
                   \<or> d (path_join (path_join path (py ''data'')) sid) = Some File)
                \<and> (disk w (path_join path (py ''data'')) = None \<longrightarrow>
                     d (path_join path (py ''data'')) = Some Dir)
                \<and> (disk w (path_join (path_join path (py ''data'')) sid) = None \<longrightarrow>
                     d (path_join (path_join path (py ''data'')) sid) = Some Dir)
                \<and> (\<forall>q. d q = disk w q \<or> (disk w q = None \<and> d q = Some Dir))
                \<and> disk w' =
                    snd (get_data env
                           (request_all_bands config
                              (path_join (path_join path (py ''data'')) sid) new_date bbox
                              img_size) d)))
         \<and> (r = Inr () \<longrightarrow> length rest = 2)
         \<and> (os_path_exists w (path_join path (py ''data'')) \<longrightarrow>
              os_path_exists w (path_join (path_join path (py ''data'')) sid) \<longrightarrow> ms = [])
         \<and> (length rest < 2 \<longrightarrow>
              (\<forall>q. disk w' q = disk w q \<or> (disk w q = None \<and> disk w' q = Some Dir)))" ..
  note c = C [THEN conjunct1]
    and ms = C [THEN conjunct2, THEN conjunct1]
    and rest = C [THEN conjunct2, THEN conjunct2, THEN conjunct1]
    and len = C [THEN conjunct2, THEN conjunct2, THEN conjunct2, THEN conjunct1]
    and nomk = C [THEN conjunct2, THEN conjunct2, THEN conjunct2, THEN conjunct2, THEN conjunct1]
    and dsk = C [THEN conjunct2, THEN conjunct2, THEN conjunct2, THEN conjunct2, THEN conjunct2]
  from rest show thesis
  proof (elim disjE, goal_cases)
    case 1
    with c len dsk show ?case by (intro no_folder [of ms] ms nomk) auto
  next
    case 2
    with c len dsk show ?case by (intro no_size [of ms] ms nomk) auto
  next
    case 3
    then show ?case
    proof (elim exE conjE)
    fix img_size d
    assume "bbox_to_dimensions env bbox 10 = Inr img_size"
      and "rest = [Bbox_to_dimensions bbox 10,
                     Get_data
                       (request_all_bands config
                          (path_join (path_join path (py ''data'')) sid) new_date bbox img_size)
                       d]"
      and "(d (path_join path (py ''data'')) = Some Dir
                   \<or> d (path_join path (py ''data'')) = Some File)"
      and "(d (path_join (path_join path (py ''data'')) sid) = Some Dir
                   \<or> d (path_join (path_join path (py ''data'')) sid) = Some File)"
      and "disk w (path_join path (py ''data'')) = None \<longrightarrow>
                     d (path_join path (py ''data'')) = Some Dir"
      and "disk w (path_join (path_join path (py ''data'')) sid) = None \<longrightarrow>
                     d (path_join (path_join path (py ''data'')) sid) = Some Dir"
      and "\<forall>q. d q = disk w q \<or> (disk w q = None \<and> d q = Some Dir)"
      and "disk w' = snd (get_data env
                       (request_all_bands config (path_join (path_join path (py ''data'')) sid)
                          new_date bbox img_size) d)"
    with c show thesis by (intro submitted [of ms img_size d] ms nomk) simp_all
    qed
  qed
qed

lemma calls_since_append: "calls w' = calls w @ new \<Longrightarrow> calls_since w w' = new"
  by (simp add: calls_since_def)

lemma submitted_mkdirs: "set ms \<subseteq> {Mkdir p, Mkdir q} \<Longrightarrow> submitted ms = []"
  by (induction ms) auto

lemma download_invocations_mkdirs:
  "set ms \<subseteq> {Mkdir p, Mkdir q} \<Longrightarrow> download_invocations ms = []"
  by (induction ms) auto

section \<open>Creating the folders and submitting the request\<close>

lemmas run_defs =
  download_data_def os_path_exists_def os_mkdir_def lib_bbox_to_dimensions_def lib_get_data_def
  record_call_def py_print_def print_walk_def calls_since_def Let_def

lemma example_download:
  "download_data example_env example_config (py ''/home/user'') (py ''S1'') example_bbox
     (py ''2023-06-05'') (example_world []) =
   (Inr (),
    \<lparr>disk = [py ''/home/user'' \<mapsto> Dir, py ''/home/user/data'' \<mapsto> Dir,
             py ''/home/user/data/S1'' \<mapsto> Dir,
             py ''/home/user/data/S1/response.tiff'' \<mapsto> File],
     stdin = [],
     stdout = [Printed_size (3390, 5570),
               Printed_text (py
                 ''An output folder has been created, and a TIFF file with 13 bands has been created with the following format:\<newline>''),
               Printed_path (py ''/home/user/data/S1/response.tiff'')],
     saved_config = None,
     calls = [Enter_download_data (py ''S1'') (py ''2023-06-05''),
              Mkdir (py ''/home/user/data''), Mkdir (py ''/home/user/data/S1''),
              Bbox_to_dimensions example_bbox 10,
              Get_data (request_all_bands example_config (py ''/home/user/data/S1'')
                          (py ''2023-06-05'') example_bbox (3390, 5570))
                [py ''/home/user'' \<mapsto> Dir, py ''/home/user/data'' \<mapsto> Dir,
                 py ''/home/user/data/S1'' \<mapsto> Dir]]\<rparr>)"
  by (simp add: run_defs example_env_def example_world_def path_join_def py_def
        request_all_bands_def)


lemma example_download_again:
  "download_data example_env example_config (py ''/home/user'') (py ''S1'') example_bbox
     (py ''2023-06-05'')
     (snd (download_data example_env example_config (py ''/home/user'') (py ''S1'') example_bbox
        (py ''2023-06-05'') (example_world []))) =
   (Inr (),
    \<lparr>disk = [py ''/home/user'' \<mapsto> Dir, py ''/home/user/data'' \<mapsto> Dir,
             py ''/home/user/data/S1'' \<mapsto> Dir,
             py ''/home/user/data/S1/response.tiff'' \<mapsto> File],
     stdin = [],
     stdout = [Printed_size (3390, 5570),
               Printed_text (py
                 ''An output folder has been created, and a TIFF file with 13 bands has been created with the following format:\<newline>''),
               Printed_path (py ''/home/user/data/S1/response.tiff''),
               Printed_size (3390, 5570),
               Printed_text (py
                 ''An output folder has been created, and a TIFF file with 13 bands has been created with the following format:\<newline>''),
               Printed_path (py ''/home/user/data/S1/response.tiff'')],
     saved_config = None,
     calls = [Enter_download_data (py ''S1'') (py ''2023-06-05''),
              Mkdir (py ''/home/user/data''), Mkdir (py ''/home/user/data/S1''),
              Bbox_to_dimensions example_bbox 10,
              Get_data (request_all_bands example_config (py ''/home/user/data/S1'')
                          (py ''2023-06-05'') example_bbox (3390, 5570))
                [py ''/home/user'' \<mapsto> Dir, py ''/home/user/data'' \<mapsto> Dir,
                 py ''/home/user/data/S1'' \<mapsto> Dir],
              Enter_download_data (py ''S1'') (py ''2023-06-05''),
              Bbox_to_dimensions example_bbox 10,
              Get_data (request_all_bands example_config (py ''/home/user/data/S1'')
                          (py ''2023-06-05'') example_bbox (3390, 5570))
                [py ''/home/user'' \<mapsto> Dir, py ''/home/user/data'' \<mapsto> Dir,
                 py ''/home/user/data/S1'' \<mapsto> Dir,
                 py ''/home/user/data/S1/response.tiff'' \<mapsto> File]]\<rparr>)"
  unfolding example_download
  by (simp add: run_defs example_env_def path_join_def py_def request_all_bands_def)



text \<open>
  Claim C8. Take a second invocation of \<^verbatim>\<open>download_data\<close> with the same path and scene
  id, started where the first one stopped. It never raises \<open>FileExistsError\<close> because a
  directory is already there: if it raises that error at all, the name is one of the two
  folders and is dangling, so that \<^verbatim>\<open>os.path.exists\<close> is \<^verbatim>\<open>False\<close> on it. When
  \<^verbatim>\<open>os.path.exists\<close> finds the two folders, the second invocation does not call
  \<^verbatim>\<open>os.mkdir\<close> at all and raises no \<open>FileExistsError\<close>. That is the situation the first
  invocation leaves behind when it got as far as its request and \<^verbatim>\<open>get_data\<close> removes
  nothing that exists. When the first invocation stopped before its request, a
  \<open>FileExistsError\<close> of the second is about a name that was dangling before the first one
  began, not about anything the first one created.
\<close>

theorem download_data_twice:
  assumes "download_data env config path sid bbox new_date w = (r1, w1)"
    and "download_data env config path sid bbox new_date' w1 = (r2, w2)"
  shows "(\<forall>p. r2 = Inl (FileExistsError p) \<longrightarrow>
            \<not> os_path_exists w1 p \<and> disk w1 p = Some Dangling
          \<and> (p = path_join path (py ''data'')
             \<or> p = path_join (path_join path (py ''data'')) sid))
       \<and> (os_path_exists w1 (path_join path (py ''data'')) \<longrightarrow>
          os_path_exists w1 (path_join (path_join path (py ''data'')) sid) \<longrightarrow>
            (\<forall>q. Mkdir q \<notin> set (calls_since w1 w2))
          \<and> (\<forall>p. r2 \<noteq> Inl (FileExistsError p)))
       \<and> (submitted (calls_since w w1) \<noteq> [] \<longrightarrow>
          (\<forall>rq d q. d q = Some Dir \<or> d q = Some File \<longrightarrow>
             snd (get_data env rq d) q = Some Dir \<or> snd (get_data env rq d) q = Some File) \<longrightarrow>
            os_path_exists w1 (path_join path (py ''data''))
          \<and> os_path_exists w1 (path_join (path_join path (py ''data'')) sid)
          \<and> (\<forall>q. Mkdir q \<notin> set (calls_since w1 w2))
          \<and> (\<forall>p. r2 \<noteq> Inl (FileExistsError p)))
       \<and> (submitted (calls_since w w1) = [] \<longrightarrow>
            (\<forall>p. r2 = Inl (FileExistsError p) \<longrightarrow> disk w p = Some Dangling))"
proof -
  let ?D = "path_join path (py ''data'')"
  let ?F = "path_join (path_join path (py ''data'')) sid"
  have fee: "\<not> os_path_exists w1 p \<and> disk w1 p = Some Dangling \<and> (p = ?D \<or> p = ?F)"
    if "r2 = Inl (FileExistsError p)" for p
    using download_data_run(5) [OF assms(2)] that by (auto simp: os_path_exists_def)
  have nomk: "\<forall>q. Mkdir q \<notin> set (calls_since w1 w2)"
    if there: "os_path_exists w1 ?D" "os_path_exists w1 ?F"
    using assms(2)
  proof (cases rule: download_data_cases)
    case (no_folder ms)
    with there have "calls w2 = calls w1 @ [Enter_download_data sid new_date']" by simp
    then have "calls_since w1 w2 = [Enter_download_data sid new_date']"
      by (rule calls_since_append)
    then show ?thesis by simp
  next
    case (no_size ms)
    with there have "calls w2 = calls w1 @
        [Enter_download_data sid new_date', Bbox_to_dimensions bbox 10]" by simp
    then have "calls_since w1 w2 = [Enter_download_data sid new_date', Bbox_to_dimensions bbox 10]"
      by (rule calls_since_append)
    then show ?thesis by simp
  next
    case (submitted ms img_size d)
    with there have "calls w2 = calls w1 @
        [Enter_download_data sid new_date', Bbox_to_dimensions bbox 10,
         Get_data (request_all_bands config (path_join (path_join path (py ''data'')) sid)
                      new_date' bbox img_size) d]" by simp
    then have "calls_since w1 w2 =
        [Enter_download_data sid new_date', Bbox_to_dimensions bbox 10,
         Get_data (request_all_bands config (path_join (path_join path (py ''data'')) sid)
                      new_date' bbox img_size) d]"
      by (rule calls_since_append)
    then show ?thesis by simp
  qed
  have nofee: "\<forall>p. r2 \<noteq> Inl (FileExistsError p)"
    if there: "os_path_exists w1 ?D" "os_path_exists w1 ?F"
    using fee there by blast
  have first: "(submitted (calls_since w w1) \<noteq> [] \<longrightarrow>
          (\<forall>rq d q. d q = Some Dir \<or> d q = Some File \<longrightarrow>
             snd (get_data env rq d) q = Some Dir \<or> snd (get_data env rq d) q = Some File) \<longrightarrow>
            os_path_exists w1 ?D \<and> os_path_exists w1 ?F)
       \<and> (submitted (calls_since w w1) = [] \<longrightarrow>
            (\<forall>q. disk w1 q = disk w q \<or> (disk w q = None \<and> disk w1 q = Some Dir)))"
    using assms(1)
  proof (cases rule: download_data_cases)
    case (no_folder ms)
    from no_folder(1) have "calls_since w w1 = Enter_download_data sid new_date # ms"
      by (rule calls_since_append)
    with submitted_mkdirs [OF no_folder(2)] no_folder(5) show ?thesis by simp
  next
    case (no_size ms)
    from no_size(1)
    have "calls_since w w1 = Enter_download_data sid new_date # ms @ [Bbox_to_dimensions bbox 10]"
      by (rule calls_since_append)
    with submitted_mkdirs [OF no_size(2)] no_size(5) show ?thesis
      by (simp add: submitted_append)
  next
    case (submitted ms img_size d)
    from submitted(1)
    have "calls_since w w1 = Enter_download_data sid new_date # ms @
         [Bbox_to_dimensions bbox 10,
          Get_data (request_all_bands config (path_join (path_join path (py ''data'')) sid)
                      new_date bbox img_size) d]"
      by (rule calls_since_append)
    then have some: "submitted (calls_since w w1) \<noteq> []"
      by (simp add: submitted_append)
    have "os_path_exists w1 ?D \<and> os_path_exists w1 ?F"
      if keeps: "\<forall>rq d q. d q = Some Dir \<or> d q = Some File \<longrightarrow>
             snd (get_data env rq d) q = Some Dir \<or> snd (get_data env rq d) q = Some File"
      using keeps submitted(4,5) unfolding os_path_exists_def submitted(10) by blast
    with some show ?thesis by simp
  qed
  have before: "disk w p = Some Dangling"
    if "submitted (calls_since w w1) = []" and "r2 = Inl (FileExistsError p)" for p
  proof -
    from first that(1)
    have "\<forall>q. disk w1 q = disk w q \<or> (disk w q = None \<and> disk w1 q = Some Dir)"
      by blast
    then have "disk w1 p = disk w p \<or> (disk w p = None \<and> disk w1 p = Some Dir)" ..
    with fee [OF that(2)] show ?thesis by auto
  qed
  show ?thesis
    using fee nomk nofee first before by blast
qed

theorem download_data_twice_witness:
  "fst (download_data example_env example_config (py ''/home/user'') (py ''S1'') example_bbox
          (py ''2023-06-05'') (example_world [])) = Inr ()
   \<and> os_path_exists
        (snd (download_data example_env example_config (py ''/home/user'') (py ''S1'')
                  example_bbox (py ''2023-06-05'') (example_world [])))
        (py ''/home/user/data'')
   \<and> os_path_exists
        (snd (download_data example_env example_config (py ''/home/user'') (py ''S1'')
                  example_bbox (py ''2023-06-05'') (example_world [])))
        (py ''/home/user/data/S1'')
   \<and> fst (download_data example_env example_config (py ''/home/user'') (py ''S1'') example_bbox
          (py ''2023-06-05'')
          (snd (download_data example_env example_config (py ''/home/user'') (py ''S1'')
                  example_bbox (py ''2023-06-05'') (example_world [])))) = Inr ()
   \<and> (\<forall>q. Mkdir q \<notin> set (calls_since
          (snd (download_data example_env example_config (py ''/home/user'') (py ''S1'')
                  example_bbox (py ''2023-06-05'') (example_world [])))
          (snd (download_data example_env example_config (py ''/home/user'') (py ''S1'')
                  example_bbox (py ''2023-06-05'')
                  (snd (download_data example_env example_config (py ''/home/user'') (py ''S1'')
                          example_bbox (py ''2023-06-05'') (example_world [])))))))
   \<and> fst (download_data example_env example_config (py ''/home/user'') (py ''S1'') example_bbox
          (py ''2023-06-05'') example_world_dangling) =
       Inl (FileExistsError (py ''/home/user/data''))
   \<and> fst (download_data example_env example_config (py ''/home/user'') (py ''S1'') example_bbox
          (py ''2023-06-05'')
          (snd (download_data example_env example_config (py ''/home/user'') (py ''S1'')
                  example_bbox (py ''2023-06-05'') example_world_dangling))) =
       Inl (FileExistsError (py ''/home/user/data''))
   \<and> \<not> os_path_exists
        (snd (download_data example_env example_config (py ''/home/user'') (py ''S1'')
                  example_bbox (py ''2023-06-05'') example_world_dangling))
        (py ''/home/user/data'')
   \<and> disk (snd (download_data example_env example_config (py ''/home/user'') (py ''S1'')
                  example_bbox (py ''2023-06-05'') example_world_dangling))
        (py ''/home/user/data'') = Some Dangling
   \<and> disk example_world_dangling (py ''/home/user/data'') = Some Dangling
   \<and> fst (download_data example_env example_config (py ''/home/user'') [] example_bbox
          (py ''2023-06-05'') example_world_blocked) =
       Inl (FileExistsError (py ''/home/user/data/''))
   \<and> fst (download_data example_env example_config (py ''/home/user'') [] example_bbox
          (py ''2023-06-05'')
          (snd (download_data example_env example_config (py ''/home/user'') []
                  example_bbox (py ''2023-06-05'') example_world_blocked))) =
       Inl (FileExistsError (py ''/home/user/data/''))
   \<and> disk (snd (download_data example_env example_config (py ''/home/user'') []
                  example_bbox (py ''2023-06-05'') example_world_blocked))
        (py ''/home/user/data'') = Some File
   \<and> disk (snd (download_data example_env example_config (py ''/home/user'') []
                  example_bbox (py ''2023-06-05'') example_world_blocked))
        (py ''/home/user/data/'') = Some Dangling"
proof -
  let ?w1 = "snd (download_data example_env example_config (py ''/home/user'') (py ''S1'')
                  example_bbox (py ''2023-06-05'') (example_world []))"
  let ?run2 = "download_data example_env example_config (py ''/home/user'') (py ''S1'')
                  example_bbox (py ''2023-06-05'') ?w1"
  let ?v1 = "snd (download_data example_env example_config (py ''/home/user'') (py ''S1'')
                  example_bbox (py ''2023-06-05'') example_world_dangling)"
  let ?again = "download_data example_env example_config (py ''/home/user'') (py ''S1'')
                  example_bbox (py ''2023-06-05'') ?v1"
  have p: "path_join (py ''/home/user'') (py ''data'') = py ''/home/user/data''"
    "path_join (py ''/home/user/data'') (py ''S1'') = py ''/home/user/data/S1''"
    by (simp_all add: path_join_def py_def)
  have first: "download_data example_env example_config (py ''/home/user'') (py ''S1'')
      example_bbox (py ''2023-06-05'') (example_world []) = (Inr (), ?w1)"
    by (simp add: example_download)
  have second: "?run2 = (fst ?run2, snd ?run2)"
    by simp
  have some: "submitted (calls_since (example_world []) ?w1) \<noteq> []"
    unfolding example_download by (simp add: calls_since_def example_world_def)
  have keeps: "\<forall>rq d q. d q = Some Dir \<or> d q = Some File \<longrightarrow>
      snd (get_data example_env rq d) q = Some Dir \<or> snd (get_data example_env rq d) q = Some File"
    by (simp add: example_env_def)
  have r: "fst ?run2 = Inr ()"
    by (simp add: example_download_again)
  note a = download_data_twice [OF first second, unfolded p, THEN conjunct2, THEN conjunct2,
      THEN conjunct1, THEN mp, OF some, THEN mp, OF keeps]
  have dangling: "download_data example_env example_config (py ''/home/user'') (py ''S1'')
      example_bbox (py ''2023-06-05'') example_world_dangling =
      (Inl (FileExistsError (py ''/home/user/data'')), ?v1)"
    by (simp add: run_defs example_env_def example_world_dangling_def path_join_def py_def
          prod_eq_iff)
  have again: "?again = (Inl (FileExistsError (py ''/home/user/data'')), snd ?again)"
    by (simp add: run_defs example_env_def example_world_dangling_def path_join_def py_def
          prod_eq_iff)
  have none: "submitted (calls_since example_world_dangling ?v1) = []"
    by (simp add: run_defs example_env_def example_world_dangling_def path_join_def py_def)
  note b = download_data_twice [OF dangling again, THEN conjunct1, rule_format, OF refl]
  note c = download_data_twice [OF dangling again, THEN conjunct2, THEN conjunct2,
      THEN conjunct2, rule_format, OF none refl]
  have r1: "fst (download_data example_env example_config (py ''/home/user'') (py ''S1'')
      example_bbox (py ''2023-06-05'') (example_world [])) = Inr ()"
    by (simp add: example_download)
  have d1: "fst (download_data example_env example_config (py ''/home/user'') (py ''S1'')
      example_bbox (py ''2023-06-05'') example_world_dangling) =
      Inl (FileExistsError (py ''/home/user/data''))"
    by (simp add: run_defs example_env_def example_world_dangling_def path_join_def py_def)
  have d2: "fst ?again = Inl (FileExistsError (py ''/home/user/data''))"
    by (simp add: run_defs example_env_def example_world_dangling_def path_join_def py_def)
  let ?blocked = "download_data example_env example_config (py ''/home/user'') []
                  example_bbox (py ''2023-06-05'') example_world_blocked"
  let ?blocked_again = "download_data example_env example_config (py ''/home/user'') []
                  example_bbox (py ''2023-06-05'') (snd ?blocked)"
  have f1: "fst ?blocked = Inl (FileExistsError (py ''/home/user/data/''))"
    and f2: "fst ?blocked_again = Inl (FileExistsError (py ''/home/user/data/''))"
    and f3: "disk (snd ?blocked) (py ''/home/user/data'') = Some File"
    by (simp_all add: run_defs example_env_def example_world_blocked_def path_join_def py_def)
  have blocked: "?blocked = (Inl (FileExistsError (py ''/home/user/data/'')), snd ?blocked)"
    using f1 by (simp add: prod_eq_iff)
  have blocked_again: "?blocked_again =
      (Inl (FileExistsError (py ''/home/user/data/'')), snd ?blocked_again)"
    using f2 by (simp add: prod_eq_iff)
  note f = download_data_twice [OF blocked blocked_again, THEN conjunct1, rule_format, OF refl]
  note there = download_data_twice [OF first second, unfolded p, THEN conjunct2,
      THEN conjunct1, THEN mp, OF a [THEN conjunct1], THEN mp,
      OF a [THEN conjunct2, THEN conjunct1]]
  show ?thesis
    using r1 a [THEN conjunct1] a [THEN conjunct2, THEN conjunct1] r
      there [THEN conjunct1] d1 d2
      b [THEN conjunct1] b [THEN conjunct2, THEN conjunct1] c
      f1 f2 f3 f [THEN conjunct2, THEN conjunct1]
    by (intro conjI)
qed

section \<open>The catalog search and the cloud-cover ceiling\<close>

lemma search_data_frame:
  "calls (snd (search_data env bbox time_interval config w)) =
     calls w @ [Catalog_search
       \<lparr>q_collection = SENTINEL2_L2A, q_bbox = bbox, q_time = time_interval,
        q_filter = Less_than (py ''eo:cloud_cover'') 2,
        q_fields = \<lparr>fields_include = [py ''id'', py ''properties.datetime'',
                                       py ''properties.eo:cloud_cover''],
                    fields_exclude = []\<rparr>\<rparr> config]"
  "disk (snd (search_data env bbox time_interval config w)) = disk w"
  "stdin (snd (search_data env bbox time_interval config w)) = stdin w"
  "stdout (snd (search_data env bbox time_interval config w)) = stdout w"
  "saved_config (snd (search_data env bbox time_interval config w)) = saved_config w"
  by (simp_all add: search_data_def record_call_def Let_def split: sum.splits)

lemma search_data_result:
  "fst (search_data env bbox time_interval config w) =
     (case search env
        \<lparr>q_collection = SENTINEL2_L2A, q_bbox = bbox, q_time = time_interval,
         q_filter = Less_than (py ''eo:cloud_cover'') 2,
         q_fields = \<lparr>fields_include = [py ''id'', py ''properties.datetime'',
                                        py ''properties.eo:cloud_cover''],
                     fields_exclude = []\<rparr>\<rparr> config of
        Inl m \<Rightarrow> Inl (LibraryError m)
      | Inr it \<Rightarrow> py_list it)"
  by (simp add: search_data_def Let_def split: sum.splits)

text \<open>
  Claim C6. Whatever the bounding box, the time interval and the configuration,
  \<^verbatim>\<open>search_data\<close> makes exactly one call, a catalog search over the given box and interval
  whose filter is \<^verbatim>\<open>eo:cloud_cover < 2\<close> and whose field selection includes the id, the
  datetime and the cloud cover and nothing else; when the search and its iterator do not
  raise, the result is the list of everything the iterator yields, in the iterator's order.
\<close>

theorem search_data_single_query:
  "calls_since w (snd (search_data env bbox time_interval config w)) =
     [Catalog_search
        \<lparr>q_collection = SENTINEL2_L2A, q_bbox = bbox, q_time = time_interval,
         q_filter = Less_than (py ''eo:cloud_cover'') 2,
         q_fields = \<lparr>fields_include = [py ''id'', py ''properties.datetime'',
                                        py ''properties.eo:cloud_cover''],
                     fields_exclude = []\<rparr>\<rparr> config]
   \<and> (\<forall>it. search env
          \<lparr>q_collection = SENTINEL2_L2A, q_bbox = bbox, q_time = time_interval,
           q_filter = Less_than (py ''eo:cloud_cover'') 2,
           q_fields = \<lparr>fields_include = [py ''id'', py ''properties.datetime'',
                                          py ''properties.eo:cloud_cover''],
                       fields_exclude = []\<rparr>\<rparr> config = Inr it \<longrightarrow>
        breaks_with it = None \<longrightarrow>
        fst (search_data env bbox time_interval config w) = Inr (yields it))"
proof -
  have "calls_since w (snd (search_data env bbox time_interval config w)) =
     [Catalog_search
        \<lparr>q_collection = SENTINEL2_L2A, q_bbox = bbox, q_time = time_interval,
         q_filter = Less_than (py ''eo:cloud_cover'') 2,
         q_fields = \<lparr>fields_include = [py ''id'', py ''properties.datetime'',
                                        py ''properties.eo:cloud_cover''],
                     fields_exclude = []\<rparr>\<rparr> config]"
    by (rule calls_since_append) (rule search_data_frame(1))
  moreover have "fst (search_data env bbox time_interval config w) = Inr (yields it)"
    if "search env
          \<lparr>q_collection = SENTINEL2_L2A, q_bbox = bbox, q_time = time_interval,
           q_filter = Less_than (py ''eo:cloud_cover'') 2,
           q_fields = \<lparr>fields_include = [py ''id'', py ''properties.datetime'',
                                          py ''properties.eo:cloud_cover''],
                       fields_exclude = []\<rparr>\<rparr> config = Inr it"
      and "breaks_with it = None" for it
    using that by (simp add: search_data_result py_list_def)
  ultimately show ?thesis by blast
qed

theorem search_data_single_query_witness:
  "calls_since (example_world [])
     (snd (search_data example_env example_bbox (py ''2023-06-01'', py ''2023-06-30'')
             example_config (example_world []))) =
     [Catalog_search
        \<lparr>q_collection = SENTINEL2_L2A, q_bbox = example_bbox,
         q_time = (py ''2023-06-01'', py ''2023-06-30''),
         q_filter = Less_than (py ''eo:cloud_cover'') 2,
         q_fields = \<lparr>fields_include = [py ''id'', py ''properties.datetime'',
                                        py ''properties.eo:cloud_cover''],
                     fields_exclude = []\<rparr>\<rparr> example_config]
   \<and> search example_env
        \<lparr>q_collection = SENTINEL2_L2A, q_bbox = example_bbox,
         q_time = (py ''2023-06-01'', py ''2023-06-30''),
         q_filter = Less_than (py ''eo:cloud_cover'') 2,
         q_fields = \<lparr>fields_include = [py ''id'', py ''properties.datetime'',
                                        py ''properties.eo:cloud_cover''],
                     fields_exclude = []\<rparr>\<rparr> example_config =
       Inr \<lparr>yields = example_scenes, breaks_with = None\<rparr>
   \<and> fst (search_data example_env example_bbox (py ''2023-06-01'', py ''2023-06-30'')
            example_config (example_world [])) = Inr example_scenes"
proof -
  have s: "search example_env
        \<lparr>q_collection = SENTINEL2_L2A, q_bbox = example_bbox,
         q_time = (py ''2023-06-01'', py ''2023-06-30''),
         q_filter = Less_than (py ''eo:cloud_cover'') 2,
         q_fields = \<lparr>fields_include = [py ''id'', py ''properties.datetime'',
                                        py ''properties.eo:cloud_cover''],
                     fields_exclude = []\<rparr>\<rparr> example_config =
       Inr \<lparr>yields = example_scenes, breaks_with = None\<rparr>"
    by (simp add: example_env_def)
  from search_data_single_query [of "example_world []" example_env example_bbox
      "(py ''2023-06-01'', py ''2023-06-30'')" example_config] s
  show ?thesis by simp
qed

text \<open>
  Claim C9. Every processing request that \<^verbatim>\<open>download_data\<close> submits carries
  \<^verbatim>\<open>maxcc=0.2\<close>, a cloud-coverage ceiling of 20 percent, whatever its arguments; this is
  above the bound of the filter of any catalog search made by \<^verbatim>\<open>search_data\<close>, which is
  2 percent.
\<close>

theorem download_data_maxcc:
  assumes "rq \<in> set (submitted
             (calls_since w (snd (download_data env config path sid bbox new_date w))))"
  shows "map inp_maxcc (req_input_data rq) = [2 / 10]
       \<and> (\<forall>q c name bound m.
             Catalog_search q c \<in>
               set (calls_since w0 (snd (search_data env0 bbox0 time_interval config0 w0))) \<longrightarrow>
             q_filter q = Less_than name bound \<longrightarrow>
             m \<in> set (map inp_maxcc (req_input_data rq)) \<longrightarrow>
             of_int bound < 100 * m)"
proof -
  obtain r w' where run: "download_data env config path sid bbox new_date w = (r, w')"
    by (meson surj_pair)
  from run have "\<exists>img_size. rq = request_all_bands config
      (path_join (path_join path (py ''data'')) sid) new_date bbox img_size"
  proof (cases rule: download_data_cases)
    case (no_folder ms)
    from no_folder(1) have "calls_since w w' = Enter_download_data sid new_date # ms"
      by (rule calls_since_append)
    with assms run submitted_mkdirs [OF no_folder(2)] show ?thesis by simp
  next
    case (no_size ms)
    from no_size(1)
    have "calls_since w w' = Enter_download_data sid new_date # ms @ [Bbox_to_dimensions bbox 10]"
      by (rule calls_since_append)
    with assms run submitted_mkdirs [OF no_size(2)] show ?thesis
      by (simp add: submitted_append)
  next
    case (submitted ms img_size d)
    from submitted(1)
    have "calls_since w w' = Enter_download_data sid new_date # ms @
         [Bbox_to_dimensions bbox 10,
          Get_data (request_all_bands config (path_join (path_join path (py ''data'')) sid)
                      new_date bbox img_size) d]"
      by (rule calls_since_append)
    with assms run submitted_mkdirs [OF submitted(2)] show ?thesis
      by (cases img_size) (auto simp: submitted_append)
  qed
  then have m: "map inp_maxcc (req_input_data rq) = [2 / 10]"
    by (auto simp: request_all_bands_def)
  have "calls_since w0 (snd (search_data env0 bbox0 time_interval config0 w0)) =
     [Catalog_search
        \<lparr>q_collection = SENTINEL2_L2A, q_bbox = bbox0, q_time = time_interval,
         q_filter = Less_than (py ''eo:cloud_cover'') 2,
         q_fields = \<lparr>fields_include = [py ''id'', py ''properties.datetime'',
                                        py ''properties.eo:cloud_cover''],
                     fields_exclude = []\<rparr>\<rparr> config0]"
    by (rule calls_since_append) (rule search_data_frame(1))
  with m show ?thesis by auto
qed

theorem download_data_maxcc_witness:
  "request_all_bands example_config (py ''/home/user/data/S1'') (py ''2023-06-05'')
      example_bbox (3390, 5570)
     \<in> set (submitted (calls_since (example_world [])
              (snd (download_data example_env example_config (py ''/home/user'') (py ''S1'')
                      example_bbox (py ''2023-06-05'') (example_world [])))))
   \<and> map inp_maxcc (req_input_data
         (request_all_bands example_config (py ''/home/user/data/S1'') (py ''2023-06-05'')
            example_bbox (3390, 5570))) = [2 / 10]
   \<and> Catalog_search
        \<lparr>q_collection = SENTINEL2_L2A, q_bbox = example_bbox,
         q_time = (py ''2023-06-01'', py ''2023-06-30''),
         q_filter = Less_than (py ''eo:cloud_cover'') 2,
         q_fields = \<lparr>fields_include = [py ''id'', py ''properties.datetime'',
                                        py ''properties.eo:cloud_cover''],
                     fields_exclude = []\<rparr>\<rparr> example_config
       \<in> set (calls_since (example_world [])
                (snd (search_data example_env example_bbox (py ''2023-06-01'', py ''2023-06-30'')
                        example_config (example_world []))))
   \<and> (2 / 10 :: rat) \<in> set (map inp_maxcc (req_input_data
         (request_all_bands example_config (py ''/home/user/data/S1'') (py ''2023-06-05'')
            example_bbox (3390, 5570))))
   \<and> (of_int 2 :: rat) < 100 * (2 / 10)"
proof -
  let ?rq = "request_all_bands example_config (py ''/home/user/data/S1'') (py ''2023-06-05'')
      example_bbox (3390, 5570)"
  let ?q = "\<lparr>q_collection = SENTINEL2_L2A, q_bbox = example_bbox,
         q_time = (py ''2023-06-01'', py ''2023-06-30''),
         q_filter = Less_than (py ''eo:cloud_cover'') 2,
         q_fields = \<lparr>fields_include = [py ''id'', py ''properties.datetime'',
                                        py ''properties.eo:cloud_cover''],
                     fields_exclude = []\<rparr>\<rparr>"
  have a: "?rq \<in> set (submitted (calls_since (example_world [])
              (snd (download_data example_env example_config (py ''/home/user'') (py ''S1'')
                      example_bbox (py ''2023-06-05'') (example_world [])))))"
    unfolding example_download by (simp add: calls_since_def example_world_def)
  have b: "Catalog_search ?q example_config
       \<in> set (calls_since (example_world [])
                (snd (search_data example_env example_bbox (py ''2023-06-01'', py ''2023-06-30'')
                        example_config (example_world []))))"
    by (simp add: calls_since_def search_data_frame)
  have c: "(2 / 10 :: rat) \<in> set (map inp_maxcc (req_input_data ?rq))"
    by (simp add: request_all_bands_def)
  have f: "q_filter ?q = Less_than (py ''eo:cloud_cover'') 2"
    by simp
  from download_data_maxcc [OF a, of "example_world []" example_env example_bbox
      "(py ''2023-06-01'', py ''2023-06-30'')" example_config]
  have "map inp_maxcc (req_input_data ?rq) = [2 / 10]"
    and "of_int 2 < 100 * (2 / 10 :: rat)"
    using b c f by blast+
  with a b c show ?thesis by simp
qed

section \<open>The selection loop\<close>

lemma py_input_line:
  "stdin w = Line k # typed \<Longrightarrow>
   py_input p w = (Inr k, (py_print (Prompt p) w)\<lparr>stdin := typed\<rparr>)"
  by (simp add: py_input_def py_print_def Let_def)

lemma py_input_eof:
  "stdin w = [] \<Longrightarrow> py_input p w = (Inl EOFError, py_print (Prompt p) w)"
  by (simp add: py_input_def py_print_def Let_def)

lemma py_input_interrupt:
  "stdin w = Ctrl_C # typed \<Longrightarrow>
   py_input p w = (Inl KeyboardInterrupt, (py_print (Prompt p) w)\<lparr>stdin := typed\<rparr>)"
  by (simp add: py_input_def py_print_def Let_def)

lemma accept_not_abort:
  "k = py ''yes'' \<or> k = py ''y'' \<or> k = py ''oui'' \<or> k = py ''o'' \<Longrightarrow>
   k \<noteq> py ''exit'' \<and> k \<noteq> py ''e''"
  by (auto simp: py_def)

lemma unit_result_collapse:
  "(case m of (Inl e, w3) \<Rightarrow> (Inl e, w3) | (Inr (_::unit), w3) \<Rightarrow> (Inr (), w3)) = m"
  by (cases m) (auto split: sum.splits)

lemma loop_body_accept:
  assumes "stdin w = Line k # typed"
    and "k = py ''yes'' \<or> k = py ''y'' \<or> k = py ''oui'' \<or> k = py ''o''"
  shows "loop_body env config path bbox result w =
           download_data env config path (scene_id result) bbox
             (take 10 (datetime (scene_properties result)))
             ((py_print (Prompt (py ''Do you want to keep it? (yes/no/exit) ''))
                 (py_print (Printed_scene result) w))\<lparr>stdin := typed\<rparr>)"
proof -
  have i: "py_input (py ''Do you want to keep it? (yes/no/exit) '')
             (py_print (Printed_scene result) w) =
           (Inr k, (py_print (Prompt (py ''Do you want to keep it? (yes/no/exit) ''))
                 (py_print (Printed_scene result) w))\<lparr>stdin := typed\<rparr>)"
    using assms(1) by (intro py_input_line) (simp add: py_print_frame)
  from accept_not_abort [OF assms(2)] have n: "\<not> (k = py ''exit'' \<or> k = py ''e'')"
    by simp
  show ?thesis
    unfolding loop_body_def Let_def i prod.case sum.case if_P [OF assms(2)] if_not_P [OF n]
    by (rule unit_result_collapse)
qed

lemma loop_body_abort:
  assumes "stdin w = Line k # typed" and "k = py ''exit'' \<or> k = py ''e''"
  shows "loop_body env config path bbox result w =
           (Inl (SystemExit None),
            (py_print (Prompt (py ''Do you want to keep it? (yes/no/exit) ''))
                 (py_print (Printed_scene result) w))\<lparr>stdin := typed\<rparr>)"
proof -
  have i: "py_input (py ''Do you want to keep it? (yes/no/exit) '')
             (py_print (Printed_scene result) w) =
           (Inr k, (py_print (Prompt (py ''Do you want to keep it? (yes/no/exit) ''))
                 (py_print (Printed_scene result) w))\<lparr>stdin := typed\<rparr>)"
    using assms(1) by (intro py_input_line) (simp add: py_print_frame)
  have n: "\<not> (k = py ''yes'' \<or> k = py ''y'' \<or> k = py ''oui'' \<or> k = py ''o'')"
    using accept_not_abort [of k] assms(2) by blast
  show ?thesis
    unfolding loop_body_def Let_def i prod.case sum.case if_P [OF assms(2)] if_not_P [OF n]
    by simp
qed

lemma loop_body_other:
  assumes "stdin w = Line k # typed"
    and "\<not> (k = py ''yes'' \<or> k = py ''y'' \<or> k = py ''oui'' \<or> k = py ''o'')"
    and "\<not> (k = py ''exit'' \<or> k = py ''e'')"
  shows "loop_body env config path bbox result w =
           (Inr (),
            (py_print (Prompt (py ''Do you want to keep it? (yes/no/exit) ''))
                 (py_print (Printed_scene result) w))\<lparr>stdin := typed\<rparr>)"
proof -
  have i: "py_input (py ''Do you want to keep it? (yes/no/exit) '')
             (py_print (Printed_scene result) w) =
           (Inr k, (py_print (Prompt (py ''Do you want to keep it? (yes/no/exit) ''))
                 (py_print (Printed_scene result) w))\<lparr>stdin := typed\<rparr>)"
    using assms(1) by (intro py_input_line) (simp add: py_print_frame)
  show ?thesis
    unfolding loop_body_def Let_def i prod.case sum.case if_not_P [OF assms(2)]
      if_not_P [OF assms(3)]
    by simp
qed

lemma asked_frame:
  "calls ((py_print (Prompt q) (py_print x w))\<lparr>stdin := typed\<rparr>) = calls w"
  "stdout ((py_print (Prompt q) (py_print x w))\<lparr>stdin := typed\<rparr>) = stdout w @ [x, Prompt q]"
  "stdin ((py_print (Prompt q) (py_print x w))\<lparr>stdin := typed\<rparr>) = typed"
  "saved_config ((py_print (Prompt q) (py_print x w))\<lparr>stdin := typed\<rparr>) = saved_config w"
  "disk ((py_print (Prompt q) (py_print x w))\<lparr>stdin := typed\<rparr>) = disk w"
  by (simp_all add: py_print_def)

lemma calls_since_same: "calls v = calls w \<Longrightarrow> calls_since v w' = calls_since w w'"
  by (simp add: calls_since_def)

lemma download_data_trace:
  assumes run: "download_data env config path sid bbox new_date w = (r, w')"
  shows "download_invocations (calls_since w w') = [(sid, new_date)]"
    and "submitted (calls_since w w') = [] \<or>
         (\<exists>img_size. bbox_to_dimensions env bbox 10 = Inr img_size \<and>
            submitted (calls_since w w') =
              [request_all_bands config (path_join (path_join path (py ''data'')) sid)
                 new_date bbox img_size])"
    and "r = Inr () \<Longrightarrow> submitted (calls_since w w') \<noteq> []"
    and "Bbox_to_dimensions b res \<in> set (calls_since w w') \<Longrightarrow> b = bbox \<and> res = 10"
proof -
  have "download_invocations (calls_since w w') = [(sid, new_date)]
      \<and> (submitted (calls_since w w') = [] \<or>
         (\<exists>img_size. bbox_to_dimensions env bbox 10 = Inr img_size \<and>
            submitted (calls_since w w') =
              [request_all_bands config (path_join (path_join path (py ''data'')) sid)
                 new_date bbox img_size]))
      \<and> (r = Inr () \<longrightarrow> submitted (calls_since w w') \<noteq> [])
      \<and> (Bbox_to_dimensions b res \<in> set (calls_since w w') \<longrightarrow> b = bbox \<and> res = 10)"
    using run
  proof (cases rule: download_data_cases)
    case (no_folder ms)
    from no_folder(1) have "calls_since w w' = Enter_download_data sid new_date # ms"
      by (rule calls_since_append)
    with no_folder(2,3) submitted_mkdirs [OF no_folder(2)]
      download_invocations_mkdirs [OF no_folder(2)]
    show ?thesis by auto
  next
    case (no_size ms)
    from no_size(1)
    have "calls_since w w' = Enter_download_data sid new_date # ms @ [Bbox_to_dimensions bbox 10]"
      by (rule calls_since_append)
    with no_size(2,3) submitted_mkdirs [OF no_size(2)]
      download_invocations_mkdirs [OF no_size(2)]
    show ?thesis by (auto simp: submitted_append download_invocations_append)
  next
    case (submitted ms img_size d)
    from submitted(1)
    have "calls_since w w' = Enter_download_data sid new_date # ms @
         [Bbox_to_dimensions bbox 10,
          Get_data (request_all_bands config (path_join (path_join path (py ''data'')) sid)
                      new_date bbox img_size) d]"
      by (rule calls_since_append)
    with submitted(2,3) submitted_mkdirs [OF submitted(2)]
      download_invocations_mkdirs [OF submitted(2)]
    show ?thesis by (auto simp: submitted_append download_invocations_append)
  qed
  then show "download_invocations (calls_since w w') = [(sid, new_date)]"
    and "submitted (calls_since w w') = [] \<or>
         (\<exists>img_size. bbox_to_dimensions env bbox 10 = Inr img_size \<and>
            submitted (calls_since w w') =
              [request_all_bands config (path_join (path_join path (py ''data'')) sid)
                 new_date bbox img_size])"
    and "r = Inr () \<Longrightarrow> submitted (calls_since w w') \<noteq> []"
    and "Bbox_to_dimensions b res \<in> set (calls_since w w') \<Longrightarrow> b = bbox \<and> res = 10"
    by simp_all
qed

text \<open>
  The loop over a list of scenes that starts with \<open>seen\<close> first goes through \<open>seen\<close>, and
  when none of these passes raises it goes on from the world they leave behind.
\<close>

lemma selection_loop_append:
  "selection_loop env config path bbox (seen @ rest) w =
     (case selection_loop env config path bbox seen w of
        (Inl e, w1) \<Rightarrow> (Inl e, w1)
      | (Inr _, w1) \<Rightarrow> selection_loop env config path bbox rest w1)"
  by (induction seen arbitrary: w) (auto split: prod.splits sum.splits)

lemma selection_loop_reaches:
  assumes "selection_loop env config path bbox seen w0 = (Inr (), w)"
  shows "selection_loop env config path bbox (seen @ result # rest) w0 =
     (case loop_body env config path bbox result w of
        (Inl e, w1) \<Rightarrow> (Inl e, w1)
      | (Inr _, w1) \<Rightarrow> selection_loop env config path bbox rest w1)"
  by (simp add: selection_loop_append assms)

lemma selection_loop_step:
  assumes "selection_loop env config path bbox seen w0 = (Inr (), w)"
  shows "fst (loop_body env config path bbox result w) = Inr () \<Longrightarrow>
           selection_loop env config path bbox (seen @ result # rest) w0 =
             selection_loop env config path bbox rest
               (snd (loop_body env config path bbox result w))"
    and "fst (loop_body env config path bbox result w) \<noteq> Inr () \<Longrightarrow>
           selection_loop env config path bbox (seen @ result # rest) w0 =
             loop_body env config path bbox result w"
  unfolding selection_loop_reaches [OF assms]
  by (auto split: prod.splits sum.splits)

text \<open>
  Claim C3. Let the loop have gone through the scenes \<open>seen\<close> without raising, whatever was
  answered for each of them, so that it now shows the scene \<open>result\<close>, and let the user type
  \<open>keep_it\<close> at that prompt. If \<open>keep_it\<close> is exactly \<^verbatim>\<open>yes\<close>, \<^verbatim>\<open>y\<close>, \<^verbatim>\<open>oui\<close> or \<^verbatim>\<open>o\<close>,
  the pass is one invocation of \<^verbatim>\<open>download_data\<close>, for the id of that scene and the first
  ten characters of its datetime, and it enters \<^verbatim>\<open>download_data\<close> exactly once; the loop
  goes on with the remaining scenes when the invocation returns and ends with its
  exception when it raises. If \<open>keep_it\<close> is exactly \<^verbatim>\<open>exit\<close> or \<^verbatim>\<open>e\<close>, the whole loop ends
  there with \<open>SystemExit\<close>: whatever scenes remain, there is no prompt beyond this one and
  no further call of any kind. Any other input downloads nothing and the loop goes on with
  the remaining scenes.
\<close>

theorem selection_loop_responses:
  assumes "selection_loop env config path bbox seen w0 = (Inr (), w)"
    and "stdin w = Line keep_it # typed"
  shows "(keep_it = py ''yes'' \<or> keep_it = py ''y'' \<or> keep_it = py ''oui'' \<or> keep_it = py ''o''
          \<longrightarrow> download_invocations
                (calls_since w (snd (loop_body env config path bbox result w))) =
              [(scene_id result, take 10 (datetime (scene_properties result)))]
            \<and> loop_body env config path bbox result w =
                download_data env config path (scene_id result) bbox
                  (take 10 (datetime (scene_properties result)))
                  ((py_print (Prompt (py ''Do you want to keep it? (yes/no/exit) ''))
                      (py_print (Printed_scene result) w))\<lparr>stdin := typed\<rparr>)
            \<and> (fst (loop_body env config path bbox result w) = Inr () \<longrightarrow>
                 selection_loop env config path bbox (seen @ result # rest) w0 =
                   selection_loop env config path bbox rest
                     (snd (loop_body env config path bbox result w)))
            \<and> (fst (loop_body env config path bbox result w) \<noteq> Inr () \<longrightarrow>
                 selection_loop env config path bbox (seen @ result # rest) w0 =
                   loop_body env config path bbox result w))
       \<and> (keep_it = py ''exit'' \<or> keep_it = py ''e''
          \<longrightarrow> fst (selection_loop env config path bbox (seen @ result # rest) w0) =
                Inl (SystemExit None)
            \<and> prompts (stdout (snd (selection_loop env config path bbox
                                       (seen @ result # rest) w0))) =
                prompts (stdout w) @ [py ''Do you want to keep it? (yes/no/exit) '']
            \<and> calls (snd (selection_loop env config path bbox (seen @ result # rest) w0)) =
                calls w
            \<and> calls_since w
                (snd (selection_loop env config path bbox (seen @ result # rest) w0)) = [])
       \<and> (\<not> (keep_it = py ''yes'' \<or> keep_it = py ''y'' \<or> keep_it = py ''oui''
               \<or> keep_it = py ''o'')
          \<and> \<not> (keep_it = py ''exit'' \<or> keep_it = py ''e'')
          \<longrightarrow> fst (loop_body env config path bbox result w) = Inr ()
            \<and> calls_since w (snd (loop_body env config path bbox result w)) = []
            \<and> selection_loop env config path bbox (seen @ result # rest) w0 =
                selection_loop env config path bbox rest
                  (snd (loop_body env config path bbox result w)))"
proof (intro conjI impI)
  let ?asked = "(py_print (Prompt (py ''Do you want to keep it? (yes/no/exit) ''))
                   (py_print (Printed_scene result) w))\<lparr>stdin := typed\<rparr>"
  note step = selection_loop_step [OF assms(1), of result rest]
  {
    assume acc: "keep_it = py ''yes'' \<or> keep_it = py ''y'' \<or> keep_it = py ''oui''
                 \<or> keep_it = py ''o''"
    obtain r w' where run: "download_data env config path (scene_id result) bbox
        (take 10 (datetime (scene_properties result))) ?asked = (r, w')"
      by (meson surj_pair)
    have "calls_since w w' = calls_since ?asked w'"
      by (rule calls_since_same [symmetric]) (rule asked_frame(1))
    with download_data_trace(1) [OF run]
    have "download_invocations (calls_since w w') =
            [(scene_id result, take 10 (datetime (scene_properties result)))]"
      by simp
    then show "download_invocations
                (calls_since w (snd (loop_body env config path bbox result w))) =
              [(scene_id result, take 10 (datetime (scene_properties result)))]"
      by (simp add: loop_body_accept [OF assms(2) acc] run)
    show "loop_body env config path bbox result w =
            download_data env config path (scene_id result) bbox
              (take 10 (datetime (scene_properties result))) ?asked"
      by (rule loop_body_accept [OF assms(2) acc])
    assume "fst (loop_body env config path bbox result w) = Inr ()"
    then show "selection_loop env config path bbox (seen @ result # rest) w0 =
                 selection_loop env config path bbox rest
                   (snd (loop_body env config path bbox result w))"
      by (rule step(1))
  }
  {
    assume "fst (loop_body env config path bbox result w) \<noteq> Inr ()"
    then show "selection_loop env config path bbox (seen @ result # rest) w0 =
                 loop_body env config path bbox result w"
      by (rule step(2))
  }
  {
    assume ab: "keep_it = py ''exit'' \<or> keep_it = py ''e''"
    have l: "selection_loop env config path bbox (seen @ result # rest) w0 =
               (Inl (SystemExit None), ?asked)"
      by (simp add: selection_loop_reaches [OF assms(1)] loop_body_abort [OF assms(2) ab])
    show "fst (selection_loop env config path bbox (seen @ result # rest) w0) =
            Inl (SystemExit None)"
      unfolding l by simp
    show "prompts (stdout (snd (selection_loop env config path bbox
                                  (seen @ result # rest) w0))) =
                prompts (stdout w) @ [py ''Do you want to keep it? (yes/no/exit) '']"
      unfolding l by (simp add: asked_frame prompts_append)
    show "calls (snd (selection_loop env config path bbox (seen @ result # rest) w0)) =
            calls w"
      unfolding l by (simp add: asked_frame)
    show "calls_since w
            (snd (selection_loop env config path bbox (seen @ result # rest) w0)) = []"
      unfolding l by (simp add: calls_since_def asked_frame)
  }
  {
    assume other: "\<not> (keep_it = py ''yes'' \<or> keep_it = py ''y'' \<or> keep_it = py ''oui''
               \<or> keep_it = py ''o'')
          \<and> \<not> (keep_it = py ''exit'' \<or> keep_it = py ''e'')"
    then have b: "loop_body env config path bbox result w = (Inr (), ?asked)"
      by (intro loop_body_other [OF assms(2)]) simp_all
    show "fst (loop_body env config path bbox result w) = Inr ()"
      by (simp add: b)
    show "calls_since w (snd (loop_body env config path bbox result w)) = []"
      by (simp add: b calls_since_def asked_frame)
    show "selection_loop env config path bbox (seen @ result # rest) w0 =
                selection_loop env config path bbox rest
                  (snd (loop_body env config path bbox result w))"
      by (rule step(1)) (simp add: b)
  }
qed

theorem selection_loop_responses_witness:
  "stdin (example_world [py ''oui'', py ''no'']) = Line (py ''oui'') # [Line (py ''no'')]
   \<and> download_invocations
        (calls_since (example_world [py ''oui'', py ''no''])
           (snd (loop_body example_env example_config (py ''/home/user'') example_bbox
                   (hd example_scenes) (example_world [py ''oui'', py ''no''])))) =
       [(py ''S1'', py ''2023-06-05'')]
   \<and> fst (loop_body example_env example_config (py ''/home/user'') example_bbox
            (hd example_scenes) (example_world [py ''oui'', py ''no''])) = Inr ()
   \<and> fst (selection_loop example_env example_config (py ''/home/user'') example_bbox
            example_scenes (example_world [py ''oui'', py ''no''])) = Inr ()
   \<and> fst (loop_body
            (example_env\<lparr>mkdir_refused := \<lambda>d p. Some (py ''Read-only file system'')\<rparr>)
            example_config (py ''/home/user'') example_bbox (hd example_scenes)
            (example_world [py ''y''])) = Inl (OSError (py ''Read-only file system''))
   \<and> fst (selection_loop
            (example_env\<lparr>mkdir_refused := \<lambda>d p. Some (py ''Read-only file system'')\<rparr>)
            example_config (py ''/home/user'') example_bbox example_scenes
            (example_world [py ''y''])) = Inl (OSError (py ''Read-only file system''))
   \<and> fst (selection_loop example_env example_config (py ''/home/user'') example_bbox
            [hd example_scenes] (example_world [py ''y'', py ''e''])) = Inr ()
   \<and> stdin (snd (selection_loop example_env example_config (py ''/home/user'') example_bbox
            [hd example_scenes] (example_world [py ''y'', py ''e'']))) = Line (py ''e'') # []
   \<and> fst (selection_loop example_env example_config (py ''/home/user'') example_bbox
            example_scenes (example_world [py ''y'', py ''e''])) = Inl (SystemExit None)
   \<and> prompts (stdout (snd (selection_loop example_env example_config (py ''/home/user'')
            example_bbox example_scenes (example_world [py ''y'', py ''e''])))) =
       [py ''Do you want to keep it? (yes/no/exit) '',
        py ''Do you want to keep it? (yes/no/exit) '']
   \<and> download_invocations (calls (snd (selection_loop example_env example_config
            (py ''/home/user'') example_bbox example_scenes
            (example_world [py ''y'', py ''e''])))) = [(py ''S1'', py ''2023-06-05'')]
   \<and> fst (selection_loop example_env example_config (py ''/home/user'') example_bbox
            [hd example_scenes] (example_world [py ''y'', py ''Yes''])) = Inr ()
   \<and> stdin (snd (selection_loop example_env example_config (py ''/home/user'') example_bbox
            [hd example_scenes] (example_world [py ''y'', py ''Yes'']))) =
       Line (py ''Yes'') # []
   \<and> fst (selection_loop example_env example_config (py ''/home/user'') example_bbox
            example_scenes (example_world [py ''y'', py ''Yes''])) = Inr ()
   \<and> download_invocations (calls (snd (selection_loop example_env example_config
            (py ''/home/user'') example_bbox example_scenes
            (example_world [py ''y'', py ''Yes''])))) = [(py ''S1'', py ''2023-06-05'')]"
proof -
  let ?loop = "selection_loop example_env example_config (py ''/home/user'') example_bbox"
  let ?body = "loop_body example_env example_config (py ''/home/user'') example_bbox"
  let ?w = "example_world [py ''oui'', py ''no'']"
  let ?va = "example_world [py ''y'', py ''e'']"
  let ?vb = "snd (?loop [hd example_scenes] ?va)"
  let ?ua = "example_world [py ''y'', py ''Yes'']"
  let ?ub = "snd (?loop [hd example_scenes] ?ua)"
  let ?ro = "example_env\<lparr>mkdir_refused := \<lambda>d p. Some (py ''Read-only file system'')\<rparr>"
  let ?y = "example_world [py ''y'']"
  have e: "[hd example_scenes] @ last example_scenes # [] = example_scenes"
    "[] @ hd example_scenes # [last example_scenes] = example_scenes"
    by (simp_all add: example_scenes_def)
  have t: "scene_id (hd example_scenes) = py ''S1''"
    "take 10 (datetime (scene_properties (hd example_scenes))) = py ''2023-06-05''"
    by (simp_all add: example_scenes_def py_def)
  have k: "py ''oui'' = py ''yes'' \<or> py ''oui'' = py ''y'' \<or> py ''oui'' = py ''oui''
      \<or> py ''oui'' = py ''o''"
    "py ''e'' = py ''exit'' \<or> py ''e'' = py ''e''"
    "\<not> (py ''Yes'' = py ''yes'' \<or> py ''Yes'' = py ''y'' \<or> py ''Yes'' = py ''oui''
        \<or> py ''Yes'' = py ''o'') \<and> \<not> (py ''Yes'' = py ''exit'' \<or> py ''Yes'' = py ''e'')"
    by (simp_all add: py_def)
  have sw: "stdin ?w = Line (py ''oui'') # [Line (py ''no'')]"
    by (simp add: example_world_def)
  have hw: "?loop [] ?w = (Inr (), ?w)"
    by simp
  have fv: "fst (?loop [hd example_scenes] ?va) = Inr ()"
    and sv: "stdin ?vb = Line (py ''e'') # []"
    and pv: "prompts (stdout ?vb) = [py ''Do you want to keep it? (yes/no/exit) '']"
    and cv: "download_invocations (calls ?vb) = [(py ''S1'', py ''2023-06-05'')]"
    by (simp_all add: loop_body_def py_input_def run_defs example_env_def example_world_def
          example_scenes_def path_join_def py_def)
  have hv: "?loop [hd example_scenes] ?va = (Inr (), ?vb)"
    using fv by (simp add: prod_eq_iff)
  have fu: "fst (?loop [hd example_scenes] ?ua) = Inr ()"
    and su: "stdin ?ub = Line (py ''Yes'') # []"
    and cu: "download_invocations (calls ?ub) = [(py ''S1'', py ''2023-06-05'')]"
    by (simp_all add: loop_body_def py_input_def run_defs example_env_def example_world_def
          example_scenes_def path_join_def py_def)
  have hu: "?loop [hd example_scenes] ?ua = (Inr (), ?ub)"
    using fu by (simp add: prod_eq_iff)
  note accepted = selection_loop_responses [OF hw sw, of "hd example_scenes"
      "[last example_scenes]", THEN conjunct1, rule_format, OF k(1)]
  note a = accepted [THEN conjunct1, unfolded t]
  have fa: "fst (?body (hd example_scenes) ?w) = Inr ()"
    and la: "fst (?loop [last example_scenes] (snd (?body (hd example_scenes) ?w))) = Inr ()"
    by (simp_all add: loop_body_def py_input_def run_defs example_env_def example_world_def
          example_scenes_def path_join_def py_def)
  have a1: "fst (?loop example_scenes ?w) = Inr ()"
    using accepted [THEN conjunct2, THEN conjunct2, THEN conjunct1, THEN mp, OF fa, unfolded e]
      la
    by simp
  have sy: "stdin ?y = Line (py ''y'') # []"
    by (simp add: example_world_def)
  have hy: "selection_loop ?ro example_config (py ''/home/user'') example_bbox [] ?y =
      (Inr (), ?y)"
    by simp
  have ky: "py ''y'' = py ''yes'' \<or> py ''y'' = py ''y'' \<or> py ''y'' = py ''oui''
      \<or> py ''y'' = py ''o''"
    by simp
  have fr: "fst (loop_body ?ro example_config (py ''/home/user'') example_bbox
      (hd example_scenes) ?y) = Inl (OSError (py ''Read-only file system''))"
    by (simp add: loop_body_def py_input_def run_defs example_env_def example_world_def
          example_scenes_def path_join_def py_def)
  then have nr: "fst (loop_body ?ro example_config (py ''/home/user'') example_bbox
      (hd example_scenes) ?y) \<noteq> Inr ()"
    by simp
  note refused = selection_loop_responses [OF hy sy, of "hd example_scenes"
      "[last example_scenes]", THEN conjunct1, rule_format, OF ky, THEN conjunct2,
      THEN conjunct2, THEN conjunct2, THEN mp, OF nr, unfolded e]
  have a2: "fst (selection_loop ?ro example_config (py ''/home/user'') example_bbox
      example_scenes ?y) = Inl (OSError (py ''Read-only file system''))"
    unfolding refused by (rule fr)
  note b = selection_loop_responses [OF hv sv, of "last example_scenes" "[]",
      THEN conjunct2, THEN conjunct1, rule_format, OF k(2), unfolded e]
  note c = selection_loop_responses [OF hu su, of "last example_scenes" "[]",
      THEN conjunct2, THEN conjunct2, rule_format, OF k(3), unfolded e]
  have b1: "fst (?loop example_scenes ?va) = Inl (SystemExit None)"
    by (rule b [THEN conjunct1])
  have b2: "prompts (stdout (snd (?loop example_scenes ?va))) =
      [py ''Do you want to keep it? (yes/no/exit) '',
       py ''Do you want to keep it? (yes/no/exit) '']"
    unfolding b [THEN conjunct2, THEN conjunct1] pv by simp
  have b3: "download_invocations (calls (snd (?loop example_scenes ?va))) =
      [(py ''S1'', py ''2023-06-05'')]"
    unfolding b [THEN conjunct2, THEN conjunct2, THEN conjunct1] by (rule cv)
  have c0: "calls (snd (?body (last example_scenes) ?ub)) = calls ?ub"
    using c [THEN conjunct2, THEN conjunct1] su
    by (simp add: loop_body_def py_input_def py_print_def Let_def py_def)
  have c1: "fst (?loop example_scenes ?ua) = Inr ()"
    unfolding c [THEN conjunct2, THEN conjunct2] by simp
  have c2: "download_invocations (calls (snd (?loop example_scenes ?ua))) =
      [(py ''S1'', py ''2023-06-05'')]"
    unfolding c [THEN conjunct2, THEN conjunct2] selection_loop.simps(1) snd_conv c0
    by (rule cu)
  show ?thesis
    using sw a fa a1 fr a2 fv sv b1 b2 b3 fu su c1 c2 by (intro conjI)
qed

text \<open>
  Claim C7. For a scene accepted at the prompt, \<^verbatim>\<open>download_data\<close> asks
  \<^verbatim>\<open>bbox_to_dimensions\<close> only for the given bounding box at resolution 10, and submits at
  most one processing request, exactly one when the pass through the loop ends normally.
  That request has the size so computed, the given bounding box, an evaluation script that
  reads the three bands B02, B03, B04 and returns them as three bands of sample type INT16,
  one input of the Sentinel-2 L2A collection whose time interval is the first ten characters
  of the scene's datetime at both ends, mosaicked by least cloud cover, and a single TIFF
  response.
\<close>

theorem accepted_scene_request:
  assumes "stdin w = Line keep_it # typed"
    and "keep_it = py ''yes'' \<or> keep_it = py ''y'' \<or> keep_it = py ''oui'' \<or> keep_it = py ''o''"
    and "loop_body env config path bbox result w = (r, w')"
  shows "length (submitted (calls_since w w')) \<le> 1
       \<and> (r = Inr () \<longrightarrow> length (submitted (calls_since w w')) = 1)
       \<and> (\<forall>b res. Bbox_to_dimensions b res \<in> set (calls_since w w') \<longrightarrow> b = bbox \<and> res = 10)
       \<and> (\<forall>rq \<in> set (submitted (calls_since w w')).
             bbox_to_dimensions env bbox 10 = Inr (req_size rq)
           \<and> req_bbox rq = bbox
           \<and> es_input_bands (req_evalscript rq) = [py ''B02'', py ''B03'', py ''B04'']
           \<and> es_output_bands (req_evalscript rq) = 3
           \<and> es_sampleType (req_evalscript rq) = py ''INT16''
           \<and> es_evaluatePixel (req_evalscript rq) = [py ''B02'', py ''B03'', py ''B04'']
           \<and> map inp_data_collection (req_input_data rq) = [SENTINEL2_L2A]
           \<and> map inp_time_interval (req_input_data rq) =
                [(take 10 (datetime (scene_properties result)),
                  take 10 (datetime (scene_properties result)))]
           \<and> map inp_mosaicking_order (req_input_data rq) = [LEAST_CC]
           \<and> req_responses rq = [(py ''default'', TIFF)]
           \<and> req_data_folder rq = path_join (path_join path (py ''data'')) (scene_id result)
           \<and> req_config rq = config)"
proof -
  let ?asked = "(py_print (Prompt (py ''Do you want to keep it? (yes/no/exit) ''))
                   (py_print (Printed_scene result) w))\<lparr>stdin := typed\<rparr>"
  let ?date = "take 10 (datetime (scene_properties result))"
  let ?folder = "path_join (path_join path (py ''data'')) (scene_id result)"
  have run: "download_data env config path (scene_id result) bbox ?date ?asked = (r, w')"
    using loop_body_accept [OF assms(1,2)] assms(3) by simp
  have same: "calls_since ?asked w' = calls_since w w'"
    by (rule calls_since_same) (rule asked_frame(1))
  note t = download_data_trace(2-4) [OF run, unfolded same]
  from t(1) have one: "length (submitted (calls_since w w')) \<le> 1"
    by auto
  from t(1,2) have ok: "r = Inr () \<longrightarrow> length (submitted (calls_since w w')) = 1"
    by auto
  from t(3) have dims:
    "\<forall>b res. Bbox_to_dimensions b res \<in> set (calls_since w w') \<longrightarrow> b = bbox \<and> res = 10"
    by blast
  have "bbox_to_dimensions env bbox 10 = Inr (req_size rq)
           \<and> req_bbox rq = bbox
           \<and> es_input_bands (req_evalscript rq) = [py ''B02'', py ''B03'', py ''B04'']
           \<and> es_output_bands (req_evalscript rq) = 3
           \<and> es_sampleType (req_evalscript rq) = py ''INT16''
           \<and> es_evaluatePixel (req_evalscript rq) = [py ''B02'', py ''B03'', py ''B04'']
           \<and> map inp_data_collection (req_input_data rq) = [SENTINEL2_L2A]
           \<and> map inp_time_interval (req_input_data rq) = [(?date, ?date)]
           \<and> map inp_mosaicking_order (req_input_data rq) = [LEAST_CC]
           \<and> req_responses rq = [(py ''default'', TIFF)]
           \<and> req_data_folder rq = ?folder
           \<and> req_config rq = config"
    if "rq \<in> set (submitted (calls_since w w'))" for rq
  proof -
    from t(1) that obtain img_size where
      "bbox_to_dimensions env bbox 10 = Inr img_size"
      "rq = request_all_bands config ?folder ?date bbox img_size"
      by auto
    then show ?thesis
      by (simp add: request_all_bands_def evalscript_all_bands_def)
  qed
  with one ok dims show ?thesis by blast
qed

theorem accepted_scene_request_witness:
  "stdin (example_world [py ''y'']) = Line (py ''y'') # []
   \<and> (py ''y'' = py ''yes'' \<or> py ''y'' = py ''y'' \<or> py ''y'' = py ''oui'' \<or> py ''y'' = py ''o'')
   \<and> fst (loop_body example_env example_config (py ''/home/user'') example_bbox
            (hd example_scenes) (example_world [py ''y''])) = Inr ()
   \<and> submitted (calls_since (example_world [py ''y''])
        (snd (loop_body example_env example_config (py ''/home/user'') example_bbox
                (hd example_scenes) (example_world [py ''y''])))) =
       [request_all_bands example_config (py ''/home/user/data/S1'') (py ''2023-06-05'')
          example_bbox (3390, 5570)]
   \<and> bbox_to_dimensions example_env example_bbox 10 = Inr (3390, 5570)
   \<and> map inp_time_interval (req_input_data
         (request_all_bands example_config (py ''/home/user/data/S1'') (py ''2023-06-05'')
            example_bbox (3390, 5570))) = [(py ''2023-06-05'', py ''2023-06-05'')]
   \<and> req_data_folder
         (request_all_bands example_config (py ''/home/user/data/S1'') (py ''2023-06-05'')
            example_bbox (3390, 5570)) = py ''/home/user/data/S1''"
proof -
  let ?w = "example_world [py ''y'']"
  let ?run = "loop_body example_env example_config (py ''/home/user'') example_bbox
                (hd example_scenes) ?w"
  let ?rq = "request_all_bands example_config (py ''/home/user/data/S1'') (py ''2023-06-05'')
          example_bbox (3390, 5570)"
  have s: "stdin ?w = Line (py ''y'') # []"
    by (simp add: example_world_def)
  have k: "py ''y'' = py ''yes'' \<or> py ''y'' = py ''y'' \<or> py ''y'' = py ''oui''
      \<or> py ''y'' = py ''o''"
    by simp
  have run: "?run = (fst ?run, snd ?run)"
    by simp
  have ev: "fst ?run = Inr ()" "submitted (calls_since ?w (snd ?run)) = [?rq]"
    by (simp_all add: loop_body_def py_input_def download_data_def os_path_exists_def
          os_mkdir_def lib_bbox_to_dimensions_def lib_get_data_def record_call_def py_print_def
          print_walk_def calls_since_def Let_def example_env_def example_world_def
          example_scenes_def path_join_def py_def request_all_bands_def)
  have rq: "?rq \<in> set (submitted (calls_since ?w (snd ?run)))"
    by (simp add: ev(2))
  have p: "path_join (path_join (py ''/home/user'') (py ''data'')) (scene_id (hd example_scenes))
      = py ''/home/user/data/S1''"
    "take 10 (datetime (scene_properties (hd example_scenes))) = py ''2023-06-05''"
    by (simp_all add: example_scenes_def path_join_def py_def)
  from accepted_scene_request [OF s k run] rq
  have "bbox_to_dimensions example_env example_bbox 10 = Inr (req_size ?rq)"
    and "map inp_time_interval (req_input_data ?rq) = [(py ''2023-06-05'', py ''2023-06-05'')]"
    and "req_data_folder ?rq = py ''/home/user/data/S1''"
    unfolding p by blast+
  with s k ev show ?thesis
    by (simp add: request_all_bands_def)
qed

section \<open>Authentication and the main program\<close>

lemma config_save_run:
  "config_save env config w =
     (case save_fails env config of
        Some m \<Rightarrow> (Inl (LibraryError m), record_call (Config_save config) w)
      | None \<Rightarrow> (Inr (), (record_call (Config_save config) w)\<lparr>saved_config := Some config\<rparr>))"
  by (simp add: config_save_def Let_def)

lemma py_input_cases:
  obtains (eof) "stdin w = []" "py_input p w = (Inl EOFError, py_print (Prompt p) w)"
  | (line) k typed where "stdin w = Line k # typed"
      "py_input p w = (Inr k, (py_print (Prompt p) w)\<lparr>stdin := typed\<rparr>)"
  | (interrupt) typed where "stdin w = Ctrl_C # typed"
      "py_input p w = (Inl KeyboardInterrupt, (py_print (Prompt p) w)\<lparr>stdin := typed\<rparr>)"
proof (cases "stdin w")
  case Nil
  then show ?thesis by (intro eof py_input_eof)
next
  case (Cons key typed)
  show ?thesis
  proof (cases key)
    case (Line k)
    with Cons show ?thesis by (intro line [of k typed] py_input_line) simp_all
  next
    case Ctrl_C
    with Cons show ?thesis by (intro interrupt [of typed] py_input_interrupt) simp_all
  qed
qed

lemma py_input_frame:
  "saved_config (snd (py_input p w)) = saved_config w"
  "calls (snd (py_input p w)) = calls w"
  "disk (snd (py_input p w)) = disk w"
  by (rule py_input_cases [where w = w and p = p]; simp add: py_print_def)+

lemma py_input_raises:
  "fst (py_input p w) = Inl e \<Longrightarrow> e = EOFError \<or> e = KeyboardInterrupt"
  by (rule py_input_cases [where w = w and p = p]) auto

lemma authenticate_raises:
  assumes "fst (authenticate env file w) = Inl e"
  shows "e = KeyboardInterrupt \<or> is_Exception e"
proof -
  have "e = EOFError \<or> e = KeyboardInterrupt \<or> (\<exists>m. e = LibraryError m)"
    using assms
    by (auto simp: authenticate_def config_save_run Let_def split_beta
          split: sum.splits option.splits if_splits dest: py_input_raises)
  then show ?thesis by auto
qed


lemma config_from_file:
  "(config0 :: config)\<lparr>instance_id := i, sh_client_id := c, sh_client_secret := s\<rparr> =
     \<lparr>instance_id = i, sh_client_id = c, sh_client_secret = s\<rparr>"
  by simp

lemma authenticate_saved:
  assumes "new_SHConfig env (saved_config w) = Inr config0"
    and "save_fails env
           \<lparr>instance_id = param_instance_id (fst (read_parameters file)),
            sh_client_id = param_client_id (fst (read_parameters file)),
            sh_client_secret = param_client_secret (fst (read_parameters file))\<rparr> = None"
  shows "saved_config (snd (authenticate env file w)) =
           Some \<lparr>instance_id = param_instance_id (fst (read_parameters file)),
                 sh_client_id = param_client_id (fst (read_parameters file)),
                 sh_client_secret = param_client_secret (fst (read_parameters file))\<rparr>"
  using assms
  by (simp add: authenticate_def config_from_file config_save_def py_print_def record_call_def
        py_input_def Let_def split: option.splits list.splits keyboard.splits)

lemma authenticate_prompted:
  assumes "new_SHConfig env (saved_config w) = Inr config0"
    and "save_fails env
           \<lparr>instance_id = param_instance_id (fst (read_parameters file)),
            sh_client_id = param_client_id (fst (read_parameters file)),
            sh_client_secret = param_client_secret (fst (read_parameters file))\<rparr> = None"
    and "param_client_id (fst (read_parameters file)) = []
         \<or> param_client_secret (fst (read_parameters file)) = []"
    and "stdin w = Line a # Line b # Line c # typed"
  shows "fst (authenticate env file w) =
           Inr \<lparr>instance_id = a, sh_client_id = b, sh_client_secret = c\<rparr>"
proof -
  let ?cf = "\<lparr>instance_id = param_instance_id (fst (read_parameters file)),
            sh_client_id = param_client_id (fst (read_parameters file)),
            sh_client_secret = param_client_secret (fst (read_parameters file))\<rparr>"
  let ?w1 = "py_print (Printed_parameters (fst (read_parameters file))) w"
  have sv: "config_save env ?cf ?w1 =
      (Inr (), (record_call (Config_save ?cf) ?w1)\<lparr>saved_config := Some ?cf\<rparr>)"
    using assms(2) by (simp add: config_save_run)
  have empty: "sh_client_id ?cf = [] \<or> sh_client_secret ?cf = []"
    using assms(3) by simp
  have n: "new_SHConfig env (saved_config ?w1) = Inr config0"
    using assms(1) by (simp add: py_print_frame)
  show ?thesis
    unfolding authenticate_def Let_def n sum.case config_from_file sv prod.case if_P [OF empty]
    using assms(4)
    by (simp add: py_input_def py_print_def record_call_def Let_def)
qed

lemma authenticate_save_fails:
  assumes "new_SHConfig env (saved_config w) = Inr config0"
    and "save_fails env
           \<lparr>instance_id = param_instance_id (fst (read_parameters file)),
            sh_client_id = param_client_id (fst (read_parameters file)),
            sh_client_secret = param_client_secret (fst (read_parameters file))\<rparr> = Some m"
  shows "fst (authenticate env file w) = Inl (LibraryError m)"
  using assms
  by (simp add: authenticate_def config_from_file config_save_def py_print_def record_call_def
        Let_def)

lemma get_catalog_info_frame:
  "saved_config (snd (get_catalog_info env config w)) = saved_config w"
  "stdin (snd (get_catalog_info env config w)) = stdin w"
  by (simp_all add: get_catalog_info_def record_call_def py_print_def Let_def split: sum.splits)



lemma loop_body_run:
  "saved_config (snd (loop_body env config path bbox result w)) = saved_config w"
  "fst (loop_body env config path bbox result w) = Inl e \<Longrightarrow>
     e = SystemExit None \<or> e = KeyboardInterrupt \<or> is_Exception e"
proof -
  let ?asked = "\<lambda>typed. (py_print (Prompt (py ''Do you want to keep it? (yes/no/exit) ''))
                   (py_print (Printed_scene result) w))\<lparr>stdin := typed\<rparr>"
  have "saved_config (snd (loop_body env config path bbox result w)) = saved_config w
      \<and> (fst (loop_body env config path bbox result w) = Inl e \<longrightarrow>
           e = SystemExit None \<or> e = KeyboardInterrupt \<or> is_Exception e)"
  proof (cases "stdin w")
    case Nil
    then have "py_input (py ''Do you want to keep it? (yes/no/exit) '')
                 (py_print (Printed_scene result) w) =
               (Inl EOFError, py_print (Prompt (py ''Do you want to keep it? (yes/no/exit) ''))
                 (py_print (Printed_scene result) w))"
      by (intro py_input_eof) (simp add: py_print_frame)
    then have "loop_body env config path bbox result w =
               (Inl EOFError, py_print (Prompt (py ''Do you want to keep it? (yes/no/exit) ''))
                 (py_print (Printed_scene result) w))"
      by (simp add: loop_body_def Let_def)
    then show ?thesis by (auto simp: py_print_frame)
  next
    case (Cons key typed)
    show ?thesis
    proof (cases key)
      case Ctrl_C
      with Cons have "py_input (py ''Do you want to keep it? (yes/no/exit) '')
                   (py_print (Printed_scene result) w) = (Inl KeyboardInterrupt, ?asked typed)"
        by (intro py_input_interrupt) (simp add: py_print_frame)
      then have "loop_body env config path bbox result w =
                   (Inl KeyboardInterrupt, ?asked typed)"
        by (simp add: loop_body_def Let_def)
      then show ?thesis by (simp add: asked_frame)
    next
      case (Line k)
      with Cons have typed: "stdin w = Line k # typed"
        by simp
      consider (accept) "k = py ''yes'' \<or> k = py ''y'' \<or> k = py ''oui'' \<or> k = py ''o''"
        | (abort) "k = py ''exit'' \<or> k = py ''e''"
        | (other) "\<not> (k = py ''yes'' \<or> k = py ''y'' \<or> k = py ''oui'' \<or> k = py ''o'')"
            "\<not> (k = py ''exit'' \<or> k = py ''e'')"
        by blast
      then show ?thesis
      proof cases
        case accept
        obtain r w' where run: "download_data env config path (scene_id result) bbox
            (take 10 (datetime (scene_properties result))) (?asked typed) = (r, w')"
          by (meson surj_pair)
        from download_data_run(3,5) [OF run]
        have "saved_config w' = saved_config w"
          and "r = Inr () \<or> (\<exists>m. r = Inl (OSError m)) \<or> (\<exists>m. r = Inl (LibraryError m))
             \<or> (\<exists>p. r = Inl (FileExistsError p))"
          by (auto simp: asked_frame)
        then show ?thesis
          unfolding loop_body_accept [OF typed accept] run by auto
      next
        case abort
        show ?thesis
          unfolding loop_body_abort [OF typed abort] by (simp add: asked_frame)
      next
        case other
        show ?thesis
          unfolding loop_body_other [OF typed other] by (simp add: asked_frame)
      qed
    qed
  qed
  then show "saved_config (snd (loop_body env config path bbox result w)) = saved_config w"
    and "fst (loop_body env config path bbox result w) = Inl e \<Longrightarrow>
     e = SystemExit None \<or> e = KeyboardInterrupt \<or> is_Exception e"
    by simp_all
qed

lemma selection_loop_saved:
  "saved_config (snd (selection_loop env config path bbox results w)) = saved_config w"
proof (induction results arbitrary: w)
  case Nil
  show ?case by simp
next
  case (Cons result rest)
  obtain r w1 where b: "loop_body env config path bbox result w = (r, w1)"
    by (meson surj_pair)
  from loop_body_run(1) [of env config path bbox result w] b
  have s: "saved_config w1 = saved_config w" by simp
  show ?case
  proof (cases r)
    case (Inl e)
    with b s show ?thesis by simp
  next
    case (Inr u)
    with b s Cons.IH [of w1] show ?thesis by simp
  qed
qed


lemma open_and_authenticate_raises:
  assumes "fst (open_and_authenticate env p w) = Inl e"
  shows "e = KeyboardInterrupt \<or> is_Exception e"
proof (cases "open_rplus env p")
  case (Inl m)
  with assms show ?thesis
    by (auto simp: open_and_authenticate_def py_open_def)
next
  case (Inr content)
  with assms have "fst (authenticate env content w) = Inl e"
    by (simp add: open_and_authenticate_def py_open_def)
  then show ?thesis by (rule authenticate_raises)
qed

lemma main_caught:
  assumes "open_and_authenticate env (path_join your_path (py ''parameters.txt'')) w = (Inl e, w1)"
    and "is_Exception e"
  shows "main env your_path coordinates w =
           (Inl (SystemExit None), py_print (Printed_exn e) w1)"
  using assms by (simp add: main_def Let_def)

lemma main_not_caught:
  assumes "open_and_authenticate env (path_join your_path (py ''parameters.txt'')) w = (Inl e, w1)"
    and "\<not> is_Exception e"
  shows "main env your_path coordinates w = (Inl e, w1)"
  using assms by (simp add: main_def Let_def)

lemma main_uncaught:
  assumes "open_and_authenticate env (path_join your_path (py ''parameters.txt'')) w =
             (Inr config, w1)"
  shows "main env your_path coordinates w =
     (case get_catalog_info env config w1 of
        (Inl e, w2) \<Rightarrow> (Inl e, w2)
      | (Inr _, w2) \<Rightarrow>
     (case new_BBox env coordinates WGS84 of
        Inl m \<Rightarrow> (Inl (LibraryError m), w2)
      | Inr bbox \<Rightarrow>
     (case search_data env bbox (py ''first-date'', py ''second-date'') config w2 of
        (Inl e, w3) \<Rightarrow> (Inl e, w3)
      | (Inr result_search, w3) \<Rightarrow>
          selection_loop env config your_path bbox result_search
            (py_print (Printed_total (length result_search)) w3))))"
  using assms by (simp add: main_def Let_def split: prod.splits sum.splits)

lemma main_saved:
  "saved_config (snd (main env your_path coordinates w)) =
     saved_config (snd (open_and_authenticate env
        (path_join your_path (py ''parameters.txt'')) w))"
proof -
  obtain r w1 where t: "open_and_authenticate env
        (path_join your_path (py ''parameters.txt'')) w = (r, w1)"
    by (meson surj_pair)
  show ?thesis
  proof (cases r)
    case (Inl e)
    with t show ?thesis
      by (cases "is_Exception e") (simp_all add: main_caught main_not_caught py_print_frame)
  next
    case (Inr config)
    obtain r2 w2 where g: "get_catalog_info env config w1 = (r2, w2)"
      by (meson surj_pair)
    from get_catalog_info_frame(1) [of env config w1] g
    have s2: "saved_config w2 = saved_config w1" by simp
    show ?thesis
    proof (cases r2)
      case (Inl e)
      with t Inr g s2 show ?thesis by (simp add: main_uncaught)
    next
      case ok2: (Inr u)
      show ?thesis
      proof (cases "new_BBox env coordinates WGS84")
        case (Inl m)
        with t Inr g ok2 s2 show ?thesis by (simp add: main_uncaught)
      next
        case box: (Inr bbox)
        obtain r3 w3 where sd: "search_data env bbox (py ''first-date'', py ''second-date'')
            config w2 = (r3, w3)"
          by (meson surj_pair)
        from search_data_frame(5) [of env bbox "(py ''first-date'', py ''second-date'')"
            config w2] sd
        have s3: "saved_config w3 = saved_config w2" by simp
        show ?thesis
        proof (cases r3)
          case (Inl e)
          with t Inr g ok2 box sd s2 s3 show ?thesis by (simp add: main_uncaught)
        next
          case (Inr result_search)
          with t \<open>r = Inr config\<close> g ok2 box sd s2 s3 show ?thesis
            by (simp add: main_uncaught selection_loop_saved py_print_frame)
        qed
      qed
    qed
  qed
qed


text \<open>
  Claim C10. \<^verbatim>\<open>authenticate\<close> calls \<^verbatim>\<open>config.save()\<close> before it looks at the client id and
  secret. When one of them is empty and the user types three values at the prompts, the
  configuration returned holds the typed values, while the saved configuration holds the
  values read from the file, after \<^verbatim>\<open>authenticate\<close> and still at the end of the whole run.
\<close>

theorem prompted_credentials_not_saved:
  assumes "new_SHConfig env (saved_config w) = Inr config0"
    and "save_fails env
           \<lparr>instance_id = param_instance_id (fst (read_parameters file)),
            sh_client_id = param_client_id (fst (read_parameters file)),
            sh_client_secret = param_client_secret (fst (read_parameters file))\<rparr> = None"
    and "param_client_id (fst (read_parameters file)) = []
         \<or> param_client_secret (fst (read_parameters file)) = []"
    and "stdin w = Line a # Line b # Line c # typed"
  shows "fst (authenticate env file w) =
           Inr \<lparr>instance_id = a, sh_client_id = b, sh_client_secret = c\<rparr>
       \<and> calls_since w (snd (authenticate env file w)) =
           [Config_save
              \<lparr>instance_id = param_instance_id (fst (read_parameters file)),
               sh_client_id = param_client_id (fst (read_parameters file)),
               sh_client_secret = param_client_secret (fst (read_parameters file))\<rparr>]
       \<and> saved_config (snd (authenticate env file w)) =
           Some \<lparr>instance_id = param_instance_id (fst (read_parameters file)),
                 sh_client_id = param_client_id (fst (read_parameters file)),
                 sh_client_secret = param_client_secret (fst (read_parameters file))\<rparr>
       \<and> (open_rplus env (path_join your_path (py ''parameters.txt'')) = Inr file \<longrightarrow>
            saved_config (snd (main env your_path coordinates w)) =
              Some \<lparr>instance_id = param_instance_id (fst (read_parameters file)),
                    sh_client_id = param_client_id (fst (read_parameters file)),
                    sh_client_secret = param_client_secret (fst (read_parameters file))\<rparr>)"
proof -
  note saved = authenticate_saved [OF assms(1,2)]
  have "saved_config (snd (main env your_path coordinates w)) =
          saved_config (snd (authenticate env file w))"
    if "open_rplus env (path_join your_path (py ''parameters.txt'')) = Inr file"
    using that by (simp add: main_saved open_and_authenticate_def py_open_def)
  moreover have "calls_since w (snd (authenticate env file w)) =
           [Config_save
              \<lparr>instance_id = param_instance_id (fst (read_parameters file)),
               sh_client_id = param_client_id (fst (read_parameters file)),
               sh_client_secret = param_client_secret (fst (read_parameters file))\<rparr>]"
    by (rule calls_since_append) (rule authenticate_calls [OF assms(1)])
  ultimately show ?thesis
    using authenticate_prompted [OF assms] saved by simp
qed


theorem prompted_credentials_not_saved_witness:
  "new_SHConfig (example_env\<lparr>open_rplus := \<lambda>p. Inr (py ''inst-1\<newline>\<newline>\<newline>'')\<rparr>)
      (saved_config (example_world [py ''inst-2'', py ''client-2'', py ''secret-2'', py ''e'']))
     = Inr \<lparr>instance_id = [], sh_client_id = [], sh_client_secret = []\<rparr>
   \<and> fst (read_parameters (py ''inst-1\<newline>\<newline>\<newline>'')) =
       \<lparr>param_instance_id = py ''inst-1'', param_client_id = [], param_client_secret = []\<rparr>
   \<and> save_fails (example_env\<lparr>open_rplus := \<lambda>p. Inr (py ''inst-1\<newline>\<newline>\<newline>'')\<rparr>)
        \<lparr>instance_id = py ''inst-1'', sh_client_id = [], sh_client_secret = []\<rparr> = None
   \<and> stdin (example_world [py ''inst-2'', py ''client-2'', py ''secret-2'', py ''e'']) =
       Line (py ''inst-2'') # Line (py ''client-2'') # Line (py ''secret-2'') # [Line (py ''e'')]
   \<and> open_rplus (example_env\<lparr>open_rplus := \<lambda>p. Inr (py ''inst-1\<newline>\<newline>\<newline>'')\<rparr>)
        (path_join (py ''/home/user'') (py ''parameters.txt'')) =
       Inr (py ''inst-1\<newline>\<newline>\<newline>'')
   \<and> fst (authenticate (example_env\<lparr>open_rplus := \<lambda>p. Inr (py ''inst-1\<newline>\<newline>\<newline>'')\<rparr>)
           (py ''inst-1\<newline>\<newline>\<newline>'')
           (example_world [py ''inst-2'', py ''client-2'', py ''secret-2'', py ''e''])) =
       Inr \<lparr>instance_id = py ''inst-2'', sh_client_id = py ''client-2'',
            sh_client_secret = py ''secret-2''\<rparr>
   \<and> saved_config (snd (authenticate
           (example_env\<lparr>open_rplus := \<lambda>p. Inr (py ''inst-1\<newline>\<newline>\<newline>'')\<rparr>)
           (py ''inst-1\<newline>\<newline>\<newline>'')
           (example_world [py ''inst-2'', py ''client-2'', py ''secret-2'', py ''e'']))) =
       Some \<lparr>instance_id = py ''inst-1'', sh_client_id = [], sh_client_secret = []\<rparr>
   \<and> saved_config (snd (main
           (example_env\<lparr>open_rplus := \<lambda>p. Inr (py ''inst-1\<newline>\<newline>\<newline>'')\<rparr>)
           (py ''/home/user'') example_coordinates
           (example_world [py ''inst-2'', py ''client-2'', py ''secret-2'', py ''e'']))) =
       Some \<lparr>instance_id = py ''inst-1'', sh_client_id = [], sh_client_secret = []\<rparr>"
proof -
  let ?env = "example_env\<lparr>open_rplus := \<lambda>p. Inr (py ''inst-1\<newline>\<newline>\<newline>'')\<rparr>"
  let ?w = "example_world [py ''inst-2'', py ''client-2'', py ''secret-2'', py ''e'']"
  let ?file = "py ''inst-1\<newline>\<newline>\<newline>''"
  have p: "fst (read_parameters ?file) =
       \<lparr>param_instance_id = py ''inst-1'', param_client_id = [], param_client_secret = []\<rparr>"
    by (simp add: read_parameters_def strip_def isspace_def py_def)
  have n: "new_SHConfig ?env (saved_config ?w) =
      Inr \<lparr>instance_id = [], sh_client_id = [], sh_client_secret = []\<rparr>"
    by (simp add: example_env_def example_world_def)
  have sv: "save_fails ?env
        \<lparr>instance_id = param_instance_id (fst (read_parameters ?file)),
         sh_client_id = param_client_id (fst (read_parameters ?file)),
         sh_client_secret = param_client_secret (fst (read_parameters ?file))\<rparr> = None"
    by (simp add: example_env_def)
  have em: "param_client_id (fst (read_parameters ?file)) = []
         \<or> param_client_secret (fst (read_parameters ?file)) = []"
    by (simp add: p)
  have i: "stdin ?w =
      Line (py ''inst-2'') # Line (py ''client-2'') # Line (py ''secret-2'') # [Line (py ''e'')]"
    by (simp add: example_world_def)
  have f: "open_rplus ?env (path_join (py ''/home/user'') (py ''parameters.txt'')) = Inr ?file"
    by simp
  from prompted_credentials_not_saved [OF n sv em i, of "py ''/home/user''" example_coordinates]
    p n sv f i
  show ?thesis by simp
qed

section \<open>Exit status and error handling of the main program\<close>

lemmas script_defs =
  main_def open_and_authenticate_def py_open_def authenticate_def read_parameters_def
  config_save_def get_catalog_info_def search_data_def py_list_def loop_body_def py_input_def
  download_data_def os_path_exists_def os_mkdir_def lib_bbox_to_dimensions_def
  lib_get_data_def record_call_def py_print_def print_walk_def Let_def

lemmas example_run_defs =
  open_and_authenticate_def py_open_def authenticate_def read_parameters_def
  config_save_def get_catalog_info_def search_data_def py_list_def loop_body_def py_input_def
  download_data_def os_path_exists_def os_mkdir_def lib_bbox_to_dimensions_def
  lib_get_data_def record_call_def py_print_def print_walk_def Let_def
  example_env_def example_world_def example_config_def example_bbox_def example_scenes_def
  path_join_def strip_def isspace_def py_def




lemma example_main_save_fails:
  "main (example_env\<lparr>save_fails := \<lambda>c. Some (py ''Permission denied'')\<rparr>)
     (py ''/home/user'') example_coordinates (example_world []) =
   (Inl (SystemExit None),
    \<lparr>disk = [py ''/home/user'' \<mapsto> Dir], stdin = [],
     stdout = [Printed_parameters
                 \<lparr>param_instance_id = py ''inst-1'', param_client_id = py ''client-1'',
                  param_client_secret = py ''secret-1''\<rparr>,
               Printed_exn (LibraryError (py ''Permission denied''))],
     saved_config = None,
     calls = [Config_save example_config]\<rparr>)"
  by (simp add: script_defs example_env_def example_world_def example_config_def
        strip_def isspace_def py_def)




lemma main_reaches_loop:
  assumes "open_and_authenticate env (path_join your_path (py ''parameters.txt'')) w =
             (Inr config, w1)"
    and "get_catalog_info env config w1 = (Inr (), w2)"
    and "new_BBox env coordinates WGS84 = Inr bbox"
    and "search_data env bbox (py ''first-date'', py ''second-date'') config w2 =
           (Inr results, w3)"
  shows "main env your_path coordinates w =
           selection_loop env config your_path bbox results
             (py_print (Printed_total (length results)) w3)"
  by (simp add: main_uncaught [OF assms(1)] assms(2-4) del: selection_loop.simps)





text \<open>
  Claim C2, as the code has it. The \<^verbatim>\<open>try\<close> block holds both the \<^verbatim>\<open>open\<close> and the call of
  \<^verbatim>\<open>authenticate\<close>, and its handler catches \<^verbatim>\<open>Exception\<close>: every such exception raised
  there is printed and ends the process through \<^verbatim>\<open>sys.exit()\<close>. That is the failure to
  open the credential file, and also a failure of \<^verbatim>\<open>config.save()\<close> inside
  \<^verbatim>\<open>authenticate\<close>. The one thing raised there that the handler lets through is the
  \<open>KeyboardInterrupt\<close> of a Ctrl-C at a credential prompt. Once the \<^verbatim>\<open>try\<close> block has
  succeeded nothing is caught any more: an exception of \<^verbatim>\<open>get_catalog_info\<close>, of the
  \<^verbatim>\<open>BBox\<close> constructor, of \<^verbatim>\<open>search_data\<close>, or of any pass through the loop, after
  whatever passes went before it without an error (and for an accepted scene the pass is
  the run of \<^verbatim>\<open>download_data\<close>), is the outcome of the loop and of the whole program.
\<close>

theorem main_error_handling:
  "(open_and_authenticate env (path_join your_path (py ''parameters.txt'')) w = (Inl e, w1) \<longrightarrow>
    is_Exception e \<longrightarrow>
      main env your_path coordinates w = (Inl (SystemExit None), py_print (Printed_exn e) w1))
 \<and> (open_and_authenticate env (path_join your_path (py ''parameters.txt'')) w = (Inl e, w1) \<longrightarrow>
    \<not> is_Exception e \<longrightarrow>
      e = KeyboardInterrupt \<and> main env your_path coordinates w = (Inl KeyboardInterrupt, w1))
 \<and> (open_rplus env p = Inl m \<longrightarrow> open_and_authenticate env p w = (Inl (OSError m), w))
 \<and> (open_rplus env p = Inr file \<longrightarrow> new_SHConfig env (saved_config w) = Inr config0 \<longrightarrow>
     save_fails env
       \<lparr>instance_id = param_instance_id (fst (read_parameters file)),
        sh_client_id = param_client_id (fst (read_parameters file)),
        sh_client_secret = param_client_secret (fst (read_parameters file))\<rparr> = Some m' \<longrightarrow>
     fst (open_and_authenticate env p w) = Inl (LibraryError m'))
 \<and> (open_and_authenticate env (path_join your_path (py ''parameters.txt'')) w =
       (Inr config, w1') \<longrightarrow>
      (get_catalog_info env config w1' = (Inl e2, w2) \<longrightarrow>
         main env your_path coordinates w = (Inl e2, w2))
    \<and> (get_catalog_info env config w1' = (Inr (), w2) \<longrightarrow>
         (new_BBox env coordinates WGS84 = Inl m3 \<longrightarrow>
            main env your_path coordinates w = (Inl (LibraryError m3), w2))
       \<and> (new_BBox env coordinates WGS84 = Inr bbox \<longrightarrow>
            (search_data env bbox (py ''first-date'', py ''second-date'') config w2 =
               (Inl e4, w3) \<longrightarrow>
             main env your_path coordinates w = (Inl e4, w3))
          \<and> (search_data env bbox (py ''first-date'', py ''second-date'') config w2 =
               (Inr result_search, w3) \<longrightarrow>
             main env your_path coordinates w =
               selection_loop env config your_path bbox result_search
                 (py_print (Printed_total (length result_search)) w3))
          \<and> (search_data env bbox (py ''first-date'', py ''second-date'') config w2 =
               (Inr (seen @ scene # remaining), w3) \<longrightarrow>
             selection_loop env config your_path bbox seen
               (py_print (Printed_total (length (seen @ scene # remaining))) w3) =
               (Inr (), w4) \<longrightarrow>
             loop_body env config your_path bbox scene w4 = (Inl e6, w5) \<longrightarrow>
             main env your_path coordinates w = (Inl e6, w5)))))
 \<and> (selection_loop env cfg dir box before v = (Inr (), va) \<longrightarrow>
     loop_body env cfg dir box result va = (Inl e5, vb) \<longrightarrow>
      selection_loop env cfg dir box (before @ result # rest) v = (Inl e5, vb))
 \<and> (stdin v = Line keep_it # typed \<longrightarrow>
     keep_it = py ''yes'' \<or> keep_it = py ''y'' \<or> keep_it = py ''oui'' \<or> keep_it = py ''o'' \<longrightarrow>
      loop_body env cfg dir box result v =
        download_data env cfg dir (scene_id result) box
          (take 10 (datetime (scene_properties result)))
          ((py_print (Prompt (py ''Do you want to keep it? (yes/no/exit) ''))
              (py_print (Printed_scene result) v))\<lparr>stdin := typed\<rparr>))"
proof (intro conjI impI)
  assume "open_and_authenticate env (path_join your_path (py ''parameters.txt'')) w = (Inl e, w1)"
    and "is_Exception e"
  then show "main env your_path coordinates w =
      (Inl (SystemExit None), py_print (Printed_exn e) w1)"
    by (rule main_caught)
next
  assume t: "open_and_authenticate env (path_join your_path (py ''parameters.txt'')) w =
      (Inl e, w1)"
    and n: "\<not> is_Exception e"
  from t have "fst (open_and_authenticate env (path_join your_path (py ''parameters.txt'')) w) =
      Inl e"
    by simp
  then have "e = KeyboardInterrupt \<or> is_Exception e"
    by (rule open_and_authenticate_raises)
  with n show k: "e = KeyboardInterrupt"
    by simp
  show "main env your_path coordinates w = (Inl KeyboardInterrupt, w1)"
    using main_not_caught [OF t n] k by simp
next
  assume "open_rplus env p = Inl m"
  then show "open_and_authenticate env p w = (Inl (OSError m), w)"
    by (simp add: open_and_authenticate_def py_open_def)
next
  assume "open_rplus env p = Inr file"
    and "new_SHConfig env (saved_config w) = Inr config0"
    and "save_fails env
       \<lparr>instance_id = param_instance_id (fst (read_parameters file)),
        sh_client_id = param_client_id (fst (read_parameters file)),
        sh_client_secret = param_client_secret (fst (read_parameters file))\<rparr> = Some m'"
  then show "fst (open_and_authenticate env p w) = Inl (LibraryError m')"
    by (simp add: open_and_authenticate_def py_open_def authenticate_save_fails)
next
  assume t: "open_and_authenticate env (path_join your_path (py ''parameters.txt'')) w =
       (Inr config, w1')"
  {
    assume "get_catalog_info env config w1' = (Inl e2, w2)"
    then show "main env your_path coordinates w = (Inl e2, w2)"
      by (simp add: main_uncaught [OF t])
  }
  assume g: "get_catalog_info env config w1' = (Inr (), w2)"
  {
    assume "new_BBox env coordinates WGS84 = Inl m3"
    with g show "main env your_path coordinates w = (Inl (LibraryError m3), w2)"
      by (simp add: main_uncaught [OF t])
  }
  assume x: "new_BBox env coordinates WGS84 = Inr bbox"
  {
    assume "search_data env bbox (py ''first-date'', py ''second-date'') config w2 =
               (Inl e4, w3)"
    with g x show "main env your_path coordinates w = (Inl e4, w3)"
      by (simp add: main_uncaught [OF t])
  }
  {
    assume "search_data env bbox (py ''first-date'', py ''second-date'') config w2 =
               (Inr result_search, w3)"
    then show "main env your_path coordinates w =
               selection_loop env config your_path bbox result_search
                 (py_print (Printed_total (length result_search)) w3)"
      by (rule main_reaches_loop [OF t g x])
  }
  {
    assume s: "search_data env bbox (py ''first-date'', py ''second-date'') config w2 =
               (Inr (seen @ scene # remaining), w3)"
      and h: "selection_loop env config your_path bbox seen
               (py_print (Printed_total (length (seen @ scene # remaining))) w3) =
               (Inr (), w4)"
      and b: "loop_body env config your_path bbox scene w4 = (Inl e6, w5)"
    show "main env your_path coordinates w = (Inl e6, w5)"
      unfolding main_reaches_loop [OF t g x s] selection_loop_reaches [OF h] b by simp
  }
next
  assume h: "selection_loop env cfg dir box before v = (Inr (), va)"
    and b: "loop_body env cfg dir box result va = (Inl e5, vb)"
  show "selection_loop env cfg dir box (before @ result # rest) v = (Inl e5, vb)"
    unfolding selection_loop_reaches [OF h] b by simp
next
  assume "stdin v = Line keep_it # typed"
    and "keep_it = py ''yes'' \<or> keep_it = py ''y'' \<or> keep_it = py ''oui'' \<or> keep_it = py ''o''"
  then show "loop_body env cfg dir box result v =
        download_data env cfg dir (scene_id result) box
          (take 10 (datetime (scene_properties result)))
          ((py_print (Prompt (py ''Do you want to keep it? (yes/no/exit) ''))
              (py_print (Printed_scene result) v))\<lparr>stdin := typed\<rparr>)"
    by (rule loop_body_accept)
qed

theorem main_error_handling_witness:
  "fst (main (example_env\<lparr>save_fails := \<lambda>c. Some (py ''Permission denied'')\<rparr>)
          (py ''/home/user'') example_coordinates (example_world [])) = Inl (SystemExit None)
   \<and> fst (main (example_env\<lparr>open_rplus := \<lambda>p. Inr (py ''inst-1\<newline>\<newline>\<newline>'')\<rparr>)
          (py ''/home/user'') example_coordinates
          ((example_world [])\<lparr>stdin := [Line (py ''inst-2''), Ctrl_C]\<rparr>)) =
       Inl KeyboardInterrupt
   \<and> open_and_authenticate
        (example_env\<lparr>open_rplus := \<lambda>p. Inl (py ''No such file or directory'')\<rparr>)
        (path_join (py ''/home/user'') (py ''parameters.txt'')) (example_world []) =
       (Inl (OSError (py ''No such file or directory'')), example_world [])
   \<and> fst (open_and_authenticate
        (example_env\<lparr>save_fails := \<lambda>c. Some (py ''Permission denied'')\<rparr>)
        (path_join (py ''/home/user'') (py ''parameters.txt'')) (example_world [])) =
       Inl (LibraryError (py ''Permission denied''))
   \<and> fst (main (example_env\<lparr>get_info := \<lambda>c. Inl (py ''401 Unauthorized'')\<rparr>)
          (py ''/home/user'') example_coordinates (example_world [])) =
       Inl (LibraryError (py ''401 Unauthorized''))
   \<and> fst (main (example_env\<lparr>new_BBox := \<lambda>xs c. Inl (py ''Invalid bbox'')\<rparr>)
          (py ''/home/user'') example_coordinates (example_world [])) =
       Inl (LibraryError (py ''Invalid bbox''))
   \<and> fst (main (example_env\<lparr>search := \<lambda>q c. Inl (py ''503 Service Unavailable'')\<rparr>)
          (py ''/home/user'') example_coordinates (example_world [])) =
       Inl (LibraryError (py ''503 Service Unavailable''))
   \<and> fst (main example_env (py ''/home/user'') example_coordinates (example_world [])) =
       Inl EOFError
   \<and> fst (main
          (example_env\<lparr>mkdir_refused := \<lambda>d p. if p = py ''/home/user/data/S2''
              then Some (py ''Read-only file system'') else None\<rparr>)
          (py ''/home/user'') example_coordinates (example_world [py ''y'', py ''y''])) =
       Inl (OSError (py ''Read-only file system''))
   \<and> fst (selection_loop
          (example_env\<lparr>mkdir_refused := \<lambda>d p. if p = py ''/home/user/data/S2''
              then Some (py ''Read-only file system'') else None\<rparr>)
          example_config (py ''/home/user'') example_bbox example_scenes
          (example_world [py ''y'', py ''y''])) =
       Inl (OSError (py ''Read-only file system''))
   \<and> fst (loop_body
          (example_env\<lparr>mkdir_refused := \<lambda>d p. if p = py ''/home/user/data/S2''
              then Some (py ''Read-only file system'') else None\<rparr>)
          example_config (py ''/home/user'') example_bbox (hd example_scenes)
          (example_world [py ''y''])) =
       fst (download_data
          (example_env\<lparr>mkdir_refused := \<lambda>d p. if p = py ''/home/user/data/S2''
              then Some (py ''Read-only file system'') else None\<rparr>)
          example_config (py ''/home/user'') (py ''S1'') example_bbox (py ''2023-06-05'')
          ((py_print (Prompt (py ''Do you want to keep it? (yes/no/exit) ''))
              (py_print (Printed_scene (hd example_scenes)) (example_world [py ''y''])))
           \<lparr>stdin := []\<rparr>))"
proof -
  let ?P = "path_join (py ''/home/user'') (py ''parameters.txt'')"
  let ?w = "example_world []"
  let ?file = "py '' inst-1 \<newline>client-1\<newline>secret-1\<newline>''"
  let ?saving = "example_env\<lparr>save_fails := \<lambda>c. Some (py ''Permission denied'')\<rparr>"
  let ?asking = "example_env\<lparr>open_rplus := \<lambda>p. Inr (py ''inst-1\<newline>\<newline>\<newline>'')\<rparr>"
  let ?nofile = "example_env\<lparr>open_rplus := \<lambda>p. Inl (py ''No such file or directory'')\<rparr>"
  let ?noinfo = "example_env\<lparr>get_info := \<lambda>c. Inl (py ''401 Unauthorized'')\<rparr>"
  let ?nobox = "example_env\<lparr>new_BBox := \<lambda>xs c. Inl (py ''Invalid bbox'')\<rparr>"
  let ?down = "example_env\<lparr>search := \<lambda>q c. Inl (py ''503 Service Unavailable'')\<rparr>"
  let ?readonly = "example_env\<lparr>mkdir_refused := \<lambda>d p. if p = py ''/home/user/data/S2''
              then Some (py ''Read-only file system'') else None\<rparr>"
  note inst = main_error_handling [where your_path = "py ''/home/user''"
      and coordinates = example_coordinates and w = "?w"]
  \<comment> \<open>a failure of the save is caught\<close>
  have t1: "open_and_authenticate ?saving ?P ?w =
      (Inl (LibraryError (py ''Permission denied'')), snd (open_and_authenticate ?saving ?P ?w))"
    by (simp add: prod_eq_iff example_run_defs)
  have x1: "is_Exception (LibraryError (py ''Permission denied''))"
    by simp
  note W1 = inst [where env = "?saving", THEN conjunct1, rule_format, OF t1 x1]
  \<comment> \<open>Ctrl-C at a credential prompt is not\<close>
  let ?wi = "(example_world [])\<lparr>stdin := [Line (py ''inst-2''), Ctrl_C]\<rparr>"
  have ti: "open_and_authenticate ?asking ?P ?wi =
      (Inl KeyboardInterrupt, snd (open_and_authenticate ?asking ?P ?wi))"
    by (simp add: prod_eq_iff example_run_defs)
  have xi: "\<not> is_Exception KeyboardInterrupt"
    by simp
  note Wi = main_error_handling [where your_path = "py ''/home/user''"
      and coordinates = example_coordinates and w = "?wi" and env = "?asking",
      THEN conjunct2, THEN conjunct1, rule_format, OF ti xi, THEN conjunct2]
  \<comment> \<open>a failure to open is raised by the try block\<close>
  have o2: "open_rplus ?nofile ?P = Inl (py ''No such file or directory'')"
    by simp
  note W2 = inst [where env = "?nofile", THEN conjunct2, THEN conjunct2, THEN conjunct1,
      rule_format, OF o2]
  \<comment> \<open>and so is a failure of the save\<close>
  have o3: "open_rplus ?saving ?P = Inr ?file"
    by (simp add: example_env_def)
  have n3: "new_SHConfig ?saving (saved_config ?w) =
      Inr \<lparr>instance_id = [], sh_client_id = [], sh_client_secret = []\<rparr>"
    by (simp add: example_env_def example_world_def)
  have s3: "save_fails ?saving
       \<lparr>instance_id = param_instance_id (fst (read_parameters ?file)),
        sh_client_id = param_client_id (fst (read_parameters ?file)),
        sh_client_secret = param_client_secret (fst (read_parameters ?file))\<rparr> =
      Some (py ''Permission denied'')"
    by simp
  note W3 = inst [where env = "?saving", THEN conjunct2, THEN conjunct2, THEN conjunct2,
      THEN conjunct1, rule_format, OF o3 n3 s3]
  \<comment> \<open>later stages\<close>
  note later = main_error_handling [where your_path = "py ''/home/user''"
      and coordinates = example_coordinates,
      THEN conjunct2, THEN conjunct2, THEN conjunct2, THEN conjunct2, THEN conjunct1,
      rule_format]
  have t4: "open_and_authenticate ?noinfo ?P ?w =
      (Inr example_config, snd (open_and_authenticate ?noinfo ?P ?w))"
    by (simp add: prod_eq_iff example_run_defs)
  have g4: "get_catalog_info ?noinfo example_config (snd (open_and_authenticate ?noinfo ?P ?w)) =
      (Inl (LibraryError (py ''401 Unauthorized'')),
       snd (get_catalog_info ?noinfo example_config (snd (open_and_authenticate ?noinfo ?P ?w))))"
    by (simp add: prod_eq_iff get_catalog_info_def Let_def)
  note W4 = later [where env = "?noinfo", OF t4, THEN conjunct1, rule_format, OF g4]
  have t5: "open_and_authenticate ?nobox ?P ?w =
      (Inr example_config, snd (open_and_authenticate ?nobox ?P ?w))"
    by (simp add: prod_eq_iff example_run_defs)
  have g5: "get_catalog_info ?nobox example_config (snd (open_and_authenticate ?nobox ?P ?w)) =
      (Inr (),
       snd (get_catalog_info ?nobox example_config (snd (open_and_authenticate ?nobox ?P ?w))))"
    by (simp add: prod_eq_iff get_catalog_info_def Let_def example_env_def)
  have x5: "new_BBox ?nobox example_coordinates WGS84 = Inl (py ''Invalid bbox'')"
    by simp
  note W5 = later [where env = "?nobox", OF t5, THEN conjunct2, rule_format, OF g5,
      THEN conjunct1, rule_format, OF x5]
  have t6: "open_and_authenticate ?down ?P ?w =
      (Inr example_config, snd (open_and_authenticate ?down ?P ?w))"
    by (simp add: prod_eq_iff example_run_defs)
  have g6: "get_catalog_info ?down example_config (snd (open_and_authenticate ?down ?P ?w)) =
      (Inr (),
       snd (get_catalog_info ?down example_config (snd (open_and_authenticate ?down ?P ?w))))"
    by (simp add: prod_eq_iff get_catalog_info_def Let_def example_env_def)
  have x6: "new_BBox ?down example_coordinates WGS84 = Inr example_bbox"
    by (simp add: example_env_def example_bbox_def)
  let ?wf = "snd (get_catalog_info ?down example_config (snd (open_and_authenticate ?down ?P ?w)))"
  have s6: "search_data ?down example_bbox (py ''first-date'', py ''second-date'')
      example_config ?wf =
      (Inl (LibraryError (py ''503 Service Unavailable'')),
       snd (search_data ?down example_bbox (py ''first-date'', py ''second-date'')
              example_config ?wf))"
    by (simp add: prod_eq_iff search_data_result)
  note W6 = later [where env = "?down", OF t6, THEN conjunct2, rule_format, OF g6,
      THEN conjunct2, rule_format, OF x6, THEN conjunct1, rule_format, OF s6]
  have t7: "open_and_authenticate example_env ?P ?w =
      (Inr example_config, snd (open_and_authenticate example_env ?P ?w))"
    by (simp add: prod_eq_iff example_run_defs)
  have g7: "get_catalog_info example_env example_config
      (snd (open_and_authenticate example_env ?P ?w)) =
      (Inr (),
       snd (get_catalog_info example_env example_config
              (snd (open_and_authenticate example_env ?P ?w))))"
    by (simp add: prod_eq_iff get_catalog_info_def Let_def example_env_def)
  have x7: "new_BBox example_env example_coordinates WGS84 = Inr example_bbox"
    by (simp add: example_env_def example_bbox_def)
  let ?wg = "snd (get_catalog_info example_env example_config
              (snd (open_and_authenticate example_env ?P ?w)))"
  have s7: "search_data example_env example_bbox (py ''first-date'', py ''second-date'')
      example_config ?wg =
      (Inr example_scenes,
       snd (search_data example_env example_bbox (py ''first-date'', py ''second-date'')
              example_config ?wg))"
    by (simp add: prod_eq_iff search_data_result py_list_def example_env_def)
  note M7 = later [where env = example_env, OF t7, THEN conjunct2, rule_format, OF g7,
      THEN conjunct2, rule_format, OF x7, THEN conjunct2, THEN conjunct1, rule_format, OF s7]
  have "fst (selection_loop example_env example_config (py ''/home/user'') example_bbox
      example_scenes
      (py_print (Printed_total (length example_scenes))
         (snd (search_data example_env example_bbox (py ''first-date'', py ''second-date'')
                 example_config ?wg)))) = Inl EOFError"
    by (simp add: example_run_defs)
  then have W7: "fst (main example_env (py ''/home/user'') example_coordinates ?w) = Inl EOFError"
    unfolding M7 .
  \<comment> \<open>inside the loop, in the second pass of a whole run\<close>
  have sc: "[hd example_scenes] @ last example_scenes # [] = example_scenes"
    by (simp add: example_scenes_def)
  let ?y = "example_world [py ''y'', py ''y'']"
  let ?ya = "snd (open_and_authenticate ?readonly ?P ?y)"
  let ?yb = "snd (get_catalog_info ?readonly example_config ?ya)"
  let ?yc = "snd (search_data ?readonly example_bbox (py ''first-date'', py ''second-date'')
              example_config ?yb)"
  let ?start = "py_print
      (Printed_total (length ([hd example_scenes] @ last example_scenes # []))) ?yc"
  let ?loop = "selection_loop ?readonly example_config (py ''/home/user'') example_bbox"
  let ?body = "loop_body ?readonly example_config (py ''/home/user'') example_bbox"
  have t8: "open_and_authenticate ?readonly ?P ?y = (Inr example_config, ?ya)"
    by (simp add: prod_eq_iff example_run_defs)
  have g8: "get_catalog_info ?readonly example_config ?ya = (Inr (), ?yb)"
    by (simp add: prod_eq_iff get_catalog_info_def Let_def example_env_def)
  have x8: "new_BBox ?readonly example_coordinates WGS84 = Inr example_bbox"
    by (simp add: example_env_def example_bbox_def)
  have s8: "search_data ?readonly example_bbox (py ''first-date'', py ''second-date'')
      example_config ?yb = (Inr ([hd example_scenes] @ last example_scenes # []), ?yc)"
    unfolding sc
    by (simp add: prod_eq_iff search_data_result py_list_def example_env_def)
  have f8: "fst (?loop [hd example_scenes] ?start) = Inr ()"
    by (simp add: example_run_defs)
  have h8: "?loop [hd example_scenes] ?start = (Inr (), snd (?loop [hd example_scenes] ?start))"
    using f8 by (simp add: prod_eq_iff)
  have e8: "fst (?body (last example_scenes) (snd (?loop [hd example_scenes] ?start))) =
      Inl (OSError (py ''Read-only file system''))"
    by (simp add: example_run_defs)
  have b8: "?body (last example_scenes) (snd (?loop [hd example_scenes] ?start)) =
      (Inl (OSError (py ''Read-only file system'')),
       snd (?body (last example_scenes) (snd (?loop [hd example_scenes] ?start))))"
    using e8 by (simp add: prod_eq_iff)
  note M8 = later [where env = "?readonly" and w = ?y, OF t8, THEN conjunct2, rule_format,
      OF g8, THEN conjunct2, rule_format, OF x8, THEN conjunct2, THEN conjunct2, rule_format,
      OF s8 h8 b8]
  have W8: "fst (main ?readonly (py ''/home/user'') example_coordinates ?y) =
      Inl (OSError (py ''Read-only file system''))"
    unfolding M8 by simp
  \<comment> \<open>inside the loop taken alone\<close>
  have f9: "fst (?loop [hd example_scenes] ?y) = Inr ()"
    by (simp add: example_run_defs)
  have h9: "?loop [hd example_scenes] ?y = (Inr (), snd (?loop [hd example_scenes] ?y))"
    using f9 by (simp add: prod_eq_iff)
  have e9: "fst (?body (last example_scenes) (snd (?loop [hd example_scenes] ?y))) =
      Inl (OSError (py ''Read-only file system''))"
    by (simp add: example_run_defs)
  have b9: "?body (last example_scenes) (snd (?loop [hd example_scenes] ?y)) =
      (Inl (OSError (py ''Read-only file system'')),
       snd (?body (last example_scenes) (snd (?loop [hd example_scenes] ?y))))"
    using e9 by (simp add: prod_eq_iff)
  note M9 = inst [where env = "?readonly" and rest = "[]",
      THEN conjunct2, THEN conjunct2, THEN conjunct2, THEN conjunct2, THEN conjunct2,
      THEN conjunct1, rule_format, OF h9 b9, unfolded sc]
  have W9: "fst (?loop example_scenes ?y) = Inl (OSError (py ''Read-only file system''))"
    unfolding M9 by simp
  \<comment> \<open>an accepted pass is the download\<close>
  let ?v = "example_world [py ''y'']"
  have i: "stdin ?v = Line (py ''y'') # []"
    by (simp add: example_world_def)
  have k: "py ''y'' = py ''yes'' \<or> py ''y'' = py ''y'' \<or> py ''y'' = py ''oui''
      \<or> py ''y'' = py ''o''"
    by simp
  have r: "scene_id (hd example_scenes) = py ''S1''"
    "take 10 (datetime (scene_properties (hd example_scenes))) = py ''2023-06-05''"
    by (simp_all add: example_scenes_def py_def)
  note Wa = inst [where env = "?readonly" and cfg = example_config
      and dir = "py ''/home/user''" and box = example_bbox and result = "hd example_scenes",
      THEN conjunct2, THEN conjunct2, THEN conjunct2, THEN conjunct2, THEN conjunct2,
      THEN conjunct2, rule_format, OF i k, unfolded r]
  show ?thesis
    unfolding W1 Wi W2 W3 W4 W5 W6 W7 W8 W9 Wa by simp
qed

text \<open>
  Against claim C2 as stated: when \<^verbatim>\<open>config.save()\<close> fails inside \<^verbatim>\<open>authenticate\<close>, the
  exception does not reach the process boundary; it is printed by the handler and the
  process ends through \<^verbatim>\<open>sys.exit()\<close>.
\<close>

theorem main_error_handling_counterexample:
  "save_fails (example_env\<lparr>save_fails := \<lambda>c. Some (py ''Permission denied'')\<rparr>)
      example_config = Some (py ''Permission denied'')
   \<and> fst (main (example_env\<lparr>save_fails := \<lambda>c. Some (py ''Permission denied'')\<rparr>)
          (py ''/home/user'') example_coordinates (example_world [])) = Inl (SystemExit None)
   \<and> last (stdout (snd (main (example_env\<lparr>save_fails := \<lambda>c. Some (py ''Permission denied'')\<rparr>)
          (py ''/home/user'') example_coordinates (example_world [])))) =
       Printed_exn (LibraryError (py ''Permission denied''))
   \<and> fst (main (example_env\<lparr>save_fails := \<lambda>c. Some (py ''Permission denied'')\<rparr>)
          (py ''/home/user'') example_coordinates (example_world [])) \<noteq>
       Inl (LibraryError (py ''Permission denied''))"
  by (simp add: example_main_save_fails)

end
